theory Spec2Isabelle
  imports Complex_Main
begin

section \<open>The guide converter: \<^verbatim>\<open>update_guide_ppt.py\<close>\<close>

text \<open>
  The script converts every PowerPoint file of \<^verbatim>\<open><cwd>/guide_source\<close> to a PDF in
  \<^verbatim>\<open><cwd>/public/guides\<close> through the PowerPoint COM interface and writes the list of
  available guides to \<^verbatim>\<open>list.json\<close>.

  The embedding passes the state of the outside world explicitly. What the script reads
  of the file system is a \<open>world\<close>; what the operating system and the COM server answer
  is an \<open>env\<close>; what the script does that can be observed (printed lines and COM calls, in
  the order they happen) is a list of \<open>event\<close>s. Errors are values: a COM call that raises
  yields the text \<open>str(e)\<close> of the exception.
\<close>

subsection \<open>Strings and paths\<close>

type_synonym path = string

text \<open>The script drives COM, so paths are Windows paths (\<^verbatim>\<open>ntpath\<close>).\<close>

definition sep :: char where
  "sep = CHR 0x5C"

definition altsep :: char where
  "altsep = CHR ''/''"

definition is_sep :: "char \<Rightarrow> bool" where
  "is_sep c = (c = sep \<or> c = altsep)"

text \<open>
  \<^verbatim>\<open>os.path.join(a, b)\<close> where \<open>b\<close> is a plain name (no drive, no root) and \<open>a\<close> is a
  directory path as \<^verbatim>\<open>os.getcwd()\<close> returns it or a join below it.
\<close>

definition path_join :: "path \<Rightarrow> string \<Rightarrow> path" where
  "path_join a b = (if a = [] \<or> is_sep (last a) then a @ b else a @ [sep] @ b)"

text \<open>
  \<^verbatim>\<open>os.path.basename(p)\<close>: what follows the last separator (for a path with at least one
  component below its drive and root).
\<close>

definition basename :: "path \<Rightarrow> string" where
  "basename p = rev (takeWhile (\<lambda>c. \<not> is_sep c) (rev p))"

text \<open>
  \<^verbatim>\<open>os.path.splitext(p)\<close>: the extension starts at the last dot of the last component,
  provided some character other than a dot stands before that dot in the component;
  otherwise the extension is empty (leading dots do not start an extension).
\<close>

definition splitext :: "path \<Rightarrow> string \<times> string" where
  "splitext p =
     (let tail = basename p;
          ext = rev (takeWhile (\<lambda>c. c \<noteq> CHR ''.'') (rev tail));
          stem = take (length tail - length ext - 1) tail
      in if CHR ''.'' \<in> set tail \<and> list_ex (\<lambda>c. c \<noteq> CHR ''.'') stem
         then (take (length p - length ext - 1) p, CHR ''.'' # ext)
         else (p, []))"

text \<open>\<^verbatim>\<open>str.lower()\<close>, on ASCII letters.\<close>

definition lower_char :: "char \<Rightarrow> char" where
  "lower_char c =
     (if (65::nat) \<le> of_char c \<and> of_char c \<le> (90::nat) then char_of (of_char c + (32::nat)) else c)"

definition lower :: "string \<Rightarrow> string" where
  "lower s = map lower_char s"

text \<open>\<^verbatim>\<open>s.endswith(suffix)\<close>, \<^verbatim>\<open>s.startswith(prefix)\<close> and \<^verbatim>\<open>sub in s\<close>.\<close>

definition endswith :: "string \<Rightarrow> string \<Rightarrow> bool" where
  "endswith s suffix = (length suffix \<le> length s \<and> drop (length s - length suffix) s = suffix)"

definition startswith :: "string \<Rightarrow> string \<Rightarrow> bool" where
  "startswith s pre = (take (length pre) s = pre)"

fun contains :: "string \<Rightarrow> string \<Rightarrow> bool" where
  "contains sub [] = (sub = [])"
| "contains sub (c # cs) = (startswith (c # cs) sub \<or> contains sub cs)"

text \<open>\<^verbatim>\<open>str(n)\<close> of a natural number, as the f-strings print \<^verbatim>\<open>len(...)\<close>.\<close>

fun str_nat :: "nat \<Rightarrow> string" where
  "str_nat n =
     (if n < 10 then [char_of (48 + n)] else str_nat (n div 10) @ [char_of (48 + n mod 10)])"

subsection \<open>The world, the environment and the observable events\<close>

text \<open>
  A guide entry is the dictionary \<^verbatim>\<open>{"title": ..., "filename": ...}\<close>, kept as the list of its
  items in insertion order (the order \<^verbatim>\<open>json.dump\<close> writes them in).
\<close>

type_synonym guide_entry = "(string \<times> string) list"

text \<open>
  \<open>stat\<close> maps every existing path to its modification time (\<^verbatim>\<open>os.path.exists\<close> is
  \<open>stat w p \<noteq> None\<close>, \<^verbatim>\<open>os.path.getmtime\<close> reads the value and raises where there is
  none). Modification times are only compared, so the floats are reals here.
  \<open>listdir\<close> gives the entries of a directory in the order the operating system lists
  them; the script lists the source directory only, and entries of other directories
  are not tracked. \<open>json\<close> holds, for every file written by \<^verbatim>\<open>json.dump\<close>, the value that
  was serialised.
\<close>

record world =
  stat :: "path \<rightharpoonup> real"
  listdir :: "path \<Rightarrow> string list"
  json :: "path \<rightharpoonup> guide_entry list"

text \<open>
  The answers of the operating system and of the PowerPoint COM server. A COM call
  answers \<open>None\<close> when it succeeds and \<open>Some m\<close> when it raises an exception \<open>e\<close> with
  \<open>str(e) = m\<close>. \<open>save_as e input output\<close> is the export of the presentation opened from
  \<open>input\<close>: \<open>Inl m\<close> when it raises, \<open>Inr t\<close> when it writes \<open>output\<close>, which then has
  modification time \<open>t\<close>. \<open>clock\<close> stamps what the script itself creates.
  \<open>os_raises\<close> is the answer of the operating system to the three file-system calls of
  the main program that no \<^verbatim>\<open>try\<close> statement guards (lines 72, 75 and 115 to 116):
  \<open>Some m\<close> when the call raises an \<^verbatim>\<open>OSError\<close> with text \<open>m\<close> (a path component that is a
  file, a path that is not a directory, a directory where the file should be, access
  denied, a full disk), \<open>None\<close> when it returns.
  What a COM call raises is a Python \<^verbatim>\<open>Exception\<close> (comtypes raises \<^verbatim>\<open>COMError\<close> and
  \<^verbatim>\<open>OSError\<close>), so \<^verbatim>\<open>except Exception\<close> catches it.
\<close>

datatype os_call =
    Makedirs path
  | Listdir path
  | Write_json path

record env =
  getcwd :: path
  abspath :: "path \<Rightarrow> path"
  clock :: real
  os_raises :: "os_call \<Rightarrow> string option"
  create_object :: "string option"
  presentations_open :: "path \<Rightarrow> string option"
  save_as :: "path \<Rightarrow> path \<Rightarrow> string + real"
  close_presentation :: "string option"
  quit_application :: "string option"

datatype com_call =
    CreateObject
  | Open path
  | SaveAs path nat
  | Close
  | Quit

text \<open>
  \<open>Print s\<close> is a line on standard output; \<open>Com c r\<close> is the COM call \<open>c\<close> together with
  what it raised (\<open>None\<close> when it returned); \<open>Call_convert i o\<close> marks the entry into
  \<^verbatim>\<open>convert_ppt_to_pdf(i, o)\<close>.
\<close>

datatype event =
    Print string
  | Com com_call "string option"
  | Call_convert path path

subsection \<open>\<^verbatim>\<open>convert_ppt_to_pdf\<close>\<close>

text \<open>
  The body of the \<^verbatim>\<open>try\<close> statement (lines 23 to 35). The result is what was raised, the
  value of the variable \<^verbatim>\<open>input_path\<close> at that point, whether \<^verbatim>\<open>powerpoint\<close> and
  \<^verbatim>\<open>presentation\<close> hold a COM object, the world and the events.
\<close>

definition try_body ::
  "env \<Rightarrow> world \<Rightarrow> path \<Rightarrow> path \<Rightarrow> string option \<times> path \<times> bool \<times> bool \<times> world \<times> event list" where
  "try_body e w input_path output_path =
     (case create_object e of
        Some m \<Rightarrow> (Some m, input_path, False, False, w, [Com CreateObject (Some m)])
      | None \<Rightarrow>
          (let input_path2 = abspath e input_path in
           case presentations_open e input_path2 of
             Some m \<Rightarrow>
               (Some m, input_path2, True, False, w,
                [Com CreateObject None, Com (Open input_path2) (Some m)])
           | None \<Rightarrow>
               (case save_as e input_path2 output_path of
                  Inl m \<Rightarrow>
                    (Some m, input_path2, True, True, w,
                     [Com CreateObject None, Com (Open input_path2) None,
                      Com (SaveAs output_path 32) (Some m)])
                | Inr t \<Rightarrow>
                    (None, input_path2, True, True, w\<lparr>stat := (stat w)(output_path \<mapsto> t)\<rparr>,
                     [Com CreateObject None, Com (Open input_path2) None,
                      Com (SaveAs output_path 32) None,
                      Print (''  -> Success: '' @ basename output_path)]))))"

text \<open>The \<^verbatim>\<open>except Exception as e\<close> clause (lines 37 to 44).\<close>

definition except_handler :: "path \<Rightarrow> string \<Rightarrow> event list" where
  "except_handler input_path error_msg =
     (if contains ''Invalid class string'' error_msg \<or> contains ''-2147221005'' error_msg
      then [Print ''  -> Error: Microsoft PowerPoint is not installed or not registered.'',
            Print ''     (This script requires PowerPoint to be installed on the machine running it)'']
      else [Print (''Error during conversion of '' @ basename input_path @ '': '' @ error_msg)])"

text \<open>
  The \<^verbatim>\<open>finally\<close> clause (lines 46 to 56): each release sits in its own
  \<^verbatim>\<open>try: ... except: pass\<close>, so what it raises is dropped. The tests
  \<^verbatim>\<open>if presentation:\<close> and \<^verbatim>\<open>if powerpoint:\<close> hold exactly when the variable was assigned
  a COM object.
\<close>

definition finally_block :: "env \<Rightarrow> bool \<Rightarrow> bool \<Rightarrow> event list" where
  "finally_block e powerpoint presentation =
     (if presentation then [Com Close (close_presentation e)] else []) @
     (if powerpoint then [Com Quit (quit_application e)] else [])"

definition convert_ppt_to_pdf :: "env \<Rightarrow> world \<Rightarrow> path \<Rightarrow> path \<Rightarrow> bool \<times> world \<times> event list" where
  "convert_ppt_to_pdf e w input_path0 output_path0 =
     (let input_path = abspath e input_path0;
          output_path = abspath e output_path0
      in if stat w input_path = None
         then (False, w,
               [Call_convert input_path0 output_path0,
                Print (''Error: Input file not found at '' @ input_path)])
         else
           (case try_body e w input_path output_path of
              (raised, input_path2, powerpoint, presentation, w', out) \<Rightarrow>
                (case raised of
                   None \<Rightarrow>
                     (True, w',
                      [Call_convert input_path0 output_path0,
                       Print (''Converting '' @ basename input_path @ ''...'')]
                      @ out @ finally_block e powerpoint presentation)
                 | Some error_msg \<Rightarrow>
                     (False, w',
                      [Call_convert input_path0 output_path0,
                       Print (''Converting '' @ basename input_path @ ''...'')]
                      @ out @ except_handler input_path2 error_msg
                      @ finally_block e powerpoint presentation))))"

subsection \<open>The main program\<close>

text \<open>How the run ends: it reaches the last line, leaves through \<^verbatim>\<open>sys.exit\<close>, or dies of an
  exception nothing catches.\<close>

datatype outcome =
    Returned
  | SystemExit int
  | Uncaught string

definition is_ppt :: "string \<Rightarrow> bool" where
  "is_ppt f = (endswith (lower f) ''.pptx'' \<or> endswith (lower f) ''.ppt'')"

definition name_without_ext :: "string \<Rightarrow> string" where
  "name_without_ext filename = fst (splitext filename)"

definition pdf_filename :: "string \<Rightarrow> string" where
  "pdf_filename filename = name_without_ext filename @ ''.pdf''"

definition guide_entry_of :: "string \<Rightarrow> guide_entry" where
  "guide_entry_of filename =
     [(''title'', name_without_ext filename), (''filename'', pdf_filename filename)]"

text \<open>
  Lines 94 to 100. \<^verbatim>\<open>os.path.getmtime(source_file)\<close> raises when the source cannot be
  stat'ed; nothing catches that.
\<close>

definition should_convert :: "world \<Rightarrow> string \<Rightarrow> path \<Rightarrow> path \<Rightarrow> string + bool \<times> event list" where
  "should_convert w filename source_file target_file =
     (case stat w target_file of
        None \<Rightarrow> Inr (True, [])
      | Some tgt_mtime \<Rightarrow>
          (case stat w source_file of
             None \<Rightarrow> Inl ''FileNotFoundError''
           | Some src_mtime \<Rightarrow>
               if tgt_mtime > src_mtime
               then Inr (False, [Print (''Skipping '' @ filename @ '' (PDF is up to date)'')])
               else Inr (True, [])))"

text \<open>One iteration of the loop over \<^verbatim>\<open>ppt_files\<close> (lines 87 to 111), on the state
  (world, events so far, \<^verbatim>\<open>guide_list\<close>).\<close>

type_synonym run_state = "world \<times> event list \<times> guide_entry list"

definition loop_body ::
  "env \<Rightarrow> path \<Rightarrow> path \<Rightarrow> string \<Rightarrow> run_state \<Rightarrow> (string \<times> world \<times> event list) + run_state" where
  "loop_body e source_dir target_dir filename st =
     (case st of (w, out, guide_list) \<Rightarrow>
        (let source_file = path_join source_dir filename;
             target_file = path_join target_dir (pdf_filename filename)
         in case should_convert w filename source_file target_file of
              Inl err \<Rightarrow> Inl (err, w, out)
            | Inr (convert, out1) \<Rightarrow>
                (case (if convert then convert_ppt_to_pdf e w source_file target_file
                       else (True, w, [])) of
                   (success, w', out2) \<Rightarrow>
                     Inr (w', out @ out1 @ out2,
                          if success then guide_list @ [guide_entry_of filename]
                          else guide_list))))"

fun process_files ::
  "env \<Rightarrow> path \<Rightarrow> path \<Rightarrow> string list \<Rightarrow> run_state \<Rightarrow> (string \<times> world \<times> event list) + run_state" where
  "process_files e source_dir target_dir [] st = Inr st"
| "process_files e source_dir target_dir (filename # rest) st =
     (case loop_body e source_dir target_dir filename st of
        Inl err \<Rightarrow> Inl err
      | Inr st' \<Rightarrow> process_files e source_dir target_dir rest st')"

text \<open>\<^verbatim>\<open>os.makedirs\<close>: the directory gets an entry, stamped by the clock, and lists nothing.\<close>

definition mkdir :: "env \<Rightarrow> world \<Rightarrow> path \<Rightarrow> world" where
  "mkdir e w p = w\<lparr>stat := (stat w)(p \<mapsto> clock e), listdir := (listdir w)(p := [])\<rparr>"

text \<open>The directories of \<open>ps\<close> that do not exist yet are created, in that order.\<close>

definition create_missing :: "env \<Rightarrow> world \<Rightarrow> path list \<Rightarrow> world" where
  "create_missing e w ps = foldl (\<lambda>w' p. if stat w' p = None then mkdir e w' p else w') w ps"

text \<open>
  \<^verbatim>\<open>os.makedirs(name, exist_ok=True)\<close> (line 72), where \<open>parents\<close> are the directories
  above \<open>name\<close> and below the working directory: the call raises, or the missing
  directories exist afterwards.
\<close>

definition makedirs_exist_ok :: "env \<Rightarrow> world \<Rightarrow> path list \<Rightarrow> path \<Rightarrow> string + world" where
  "makedirs_exist_ok e w parents name =
     (case os_raises e (Makedirs name) of
        Some m \<Rightarrow> Inl m
      | None \<Rightarrow> Inr (create_missing e w (parents @ [name])))"

definition source_dir_of :: "env \<Rightarrow> path" where
  "source_dir_of e = path_join (getcwd e) ''guide_source''"

definition target_dir_of :: "env \<Rightarrow> path" where
  "target_dir_of e = path_join (path_join (getcwd e) ''public'') ''guides''"

definition list_file_of :: "env \<Rightarrow> path" where
  "list_file_of e = path_join (target_dir_of e) ''list.json''"

text \<open>
  Lines 113 to 122: the manifest is written and the summary printed. When
  \<^verbatim>\<open>open(list_file, 'w')\<close> or \<^verbatim>\<open>json.dump\<close> raises, nothing catches it and the run dies
  there.
\<close>

definition write_manifest :: "env \<Rightarrow> run_state \<Rightarrow> outcome \<times> world \<times> event list" where
  "write_manifest e st =
     (case st of (w, out, guide_list) \<Rightarrow>
        (let list_file = list_file_of e
         in case os_raises e (Write_json list_file) of
              Some m \<Rightarrow> (Uncaught m, w, out)
            | None \<Rightarrow>
                (Returned,
                 w\<lparr>stat := (stat w)(list_file \<mapsto> clock e),
                   json := (json w)(list_file \<mapsto> guide_list)\<rparr>,
                 out @
                 [Print (replicate 50 CHR ''-''),
                  Print ''Update complete!'',
                  Print (''Converted '' @ str_nat (length guide_list) @ '' files.''),
                  Print (''Guide list saved to: '' @ list_file),
                  Print (replicate 50 CHR ''-'')])))"

text \<open>Lines 86 to 122, from any state of the loop: the remaining files are processed and
  the manifest is written, unless an exception nothing catches ends the run.\<close>

definition finish ::
  "env \<Rightarrow> path \<Rightarrow> path \<Rightarrow> string list \<Rightarrow> run_state \<Rightarrow> outcome \<times> world \<times> event list" where
  "finish e source_dir target_dir files st =
     (case process_files e source_dir target_dir files st of
        Inl (err, w', out) \<Rightarrow> (Uncaught err, w', out)
      | Inr st' \<Rightarrow> write_manifest e st')"

text \<open>Line 75: \<^verbatim>\<open>os.listdir(source_dir)\<close> raises, or \<^verbatim>\<open>ppt_files\<close> is the list of the
  entries whose lower-cased name ends in \<^verbatim>\<open>.pptx\<close> or \<^verbatim>\<open>.ppt\<close>, in listing order.\<close>

definition ppt_files :: "env \<Rightarrow> world \<Rightarrow> string + string list" where
  "ppt_files e w =
     (case os_raises e (Listdir (source_dir_of e)) of
        Some m \<Rightarrow> Inl m
      | None \<Rightarrow> Inr (filter is_ppt (listdir w (source_dir_of e))))"

definition main :: "env \<Rightarrow> world \<Rightarrow> outcome \<times> world \<times> event list" where
  "main e w =
     (let source_dir = source_dir_of e;
          target_dir = target_dir_of e
      in if stat w source_dir = None
         then (SystemExit 0, mkdir e w source_dir,
               [Print (''Created source directory: '' @ source_dir),
                Print ''Please place your PPTX files in this folder.''])
         else
           (case makedirs_exist_ok e w [path_join (getcwd e) ''public''] target_dir of
              Inl err \<Rightarrow> (Uncaught err, w, [])
            | Inr w1 \<Rightarrow>
                (case ppt_files e w1 of
                   Inl err \<Rightarrow> (Uncaught err, w1, [])
                 | Inr files \<Rightarrow>
                     if files = []
                     then (SystemExit 0, w1,
                           [Print (''No PowerPoint files found in '' @ source_dir),
                            Print ''Please place your .pptx files there and run this script again.''])
                     else finish e source_dir target_dir files
                            (w1, [Print (''Found '' @ str_nat (length files) @ '' PowerPoint files.'')],
                             []))))"

subsection \<open>Reading the events\<close>

text \<open>The release calls of the \<^verbatim>\<open>finally\<close> clause.\<close>

fun is_release :: "event \<Rightarrow> bool" where
  "is_release (Com Close r) = True"
| "is_release (Com Quit r) = True"
| "is_release ev = False"

text \<open>The conversions a run has attempted: the arguments of every call of
  \<^verbatim>\<open>convert_ppt_to_pdf\<close>, in order.\<close>

fun conversions :: "event list \<Rightarrow> (path \<times> path) list" where
  "conversions [] = []"
| "conversions (Call_convert i p # evs) = (i, p) # conversions evs"
| "conversions (ev # evs) = conversions evs"



text \<open>The candidates of a run: what \<^verbatim>\<open>ppt_files\<close> is when the listing of line 75
  returns.\<close>

definition candidates :: "env \<Rightarrow> world \<Rightarrow> string list" where
  "candidates e w = filter is_ppt (listdir w (source_dir_of e))"

definition source_file_of :: "env \<Rightarrow> string \<Rightarrow> path" where
  "source_file_of e filename = path_join (source_dir_of e) filename"

definition target_file_of :: "env \<Rightarrow> string \<Rightarrow> path" where
  "target_file_of e filename = path_join (target_dir_of e) (pdf_filename filename)"

subsection \<open>Sample environments and worlds\<close>

text \<open>
  A machine whose working directory is \<^verbatim>\<open>C:\work\<close>, where no file-system call raises
  and PowerPoint converts every file and stamps the PDF with time 100.
\<close>

definition sample_env :: env where
  "sample_env =
     \<lparr>getcwd = ''C:'' @ [sep] @ ''work'', abspath = (\<lambda>p. p), clock = 200,
      os_raises = (\<lambda>c. None),
      create_object = None, presentations_open = (\<lambda>p. None),
      save_as = (\<lambda>i p. Inr 100), close_presentation = None, quit_application = None\<rparr>"

text \<open>A world with the source directory, the given source files and the given PDF files
  of the target directory (name and modification time); the source files are listed in
  the order given.\<close>

definition sample_world :: "(string \<times> real) list \<Rightarrow> (string \<times> real) list \<Rightarrow> world" where
  "sample_world files pdfs =
     \<lparr>stat = map_of ((source_dir_of sample_env, 0) #
                      map (\<lambda>(f, t). (path_join (source_dir_of sample_env) f, t)) files @
                      map (\<lambda>(f, t). (path_join (target_dir_of sample_env) f, t)) pdfs),
      listdir = (\<lambda>p. if p = source_dir_of sample_env then map fst files else []),
      json = Map.empty\<rparr>"

text \<open>A world with no source directory.\<close>

definition empty_world :: world where
  "empty_world = \<lparr>stat = Map.empty, listdir = (\<lambda>p. []), json = Map.empty\<rparr>"

text \<open>The same machine, where the export fails and closing the presentation fails too.\<close>

definition raising_env :: env where
  "raising_env =
     sample_env\<lparr>save_as := (\<lambda>i p. Inl ''The disk is full''),
                close_presentation := Some ''The RPC server is unavailable''\<rparr>"

text \<open>The same machine without PowerPoint: creating the application object fails with
  the COM error for an unregistered class.\<close>

definition unavailable_env :: env where
  "unavailable_env = sample_env\<lparr>create_object := Some ''Invalid class string''\<rparr>"

text \<open>A printed line that names the file.\<close>

fun names_file :: "string \<Rightarrow> event \<Rightarrow> bool" where
  "names_file name (Print s) = contains name s"
| "names_file name ev = False"

text \<open>The same machine, where the export of \<^verbatim>\<open>Broken.pptx\<close> fails and every other export
  works.\<close>

definition broken_env :: env where
  "broken_env =
     sample_env\<lparr>save_as := (\<lambda>i p. if basename i = ''Broken.pptx''
                                     then Inl ''The file is corrupt'' else Inr 100)\<rparr>"

subsection \<open>Notions for two runs in succession\<close>

text \<open>The staleness check finds the target current: it exists, and its modification time
  is strictly greater than the source's.\<close>

definition up_to_date :: "world \<Rightarrow> path \<Rightarrow> path \<Rightarrow> bool" where
  "up_to_date w source_file target_file =
     (case stat w target_file of
        None \<Rightarrow> False
      | Some t \<Rightarrow> (case stat w source_file of None \<Rightarrow> False | Some s \<Rightarrow> s < t))"

text \<open>PowerPoint converts the source file, which exists, and the PDF it writes gets a
  modification time strictly greater than the source's; both paths are absolute.\<close>

definition converts_later :: "env \<Rightarrow> world \<Rightarrow> path \<Rightarrow> path \<Rightarrow> bool" where
  "converts_later e w source_file target_file =
     (abspath e source_file = source_file \<and> abspath e target_file = target_file
      \<and> create_object e = None \<and> presentations_open e source_file = None
      \<and> (case stat w source_file of
            None \<Rightarrow> False
          | Some s \<Rightarrow> (case save_as e source_file target_file of Inl m \<Rightarrow> False | Inr t \<Rightarrow> s < t)))"

text \<open>None of the file-system calls of the main program that stand outside a \<^verbatim>\<open>try\<close>
  statement raises.\<close>

definition os_ok :: "env \<Rightarrow> bool" where
  "os_ok e =
     (os_raises e (Makedirs (target_dir_of e)) = None
      \<and> os_raises e (Listdir (source_dir_of e)) = None
      \<and> os_raises e (Write_json (list_file_of e)) = None)"

section \<open>Properties\<close>

lemmas path_defs =
  source_dir_of_def target_dir_of_def list_file_of_def source_file_of_def target_file_of_def
  path_join_def sep_def altsep_def is_sep_def basename_def splitext_def
  name_without_ext_def pdf_filename_def guide_entry_of_def Let_def

lemmas string_defs =
  is_ppt_def endswith_def startswith_def lower_def lower_char_def

lemmas convert_defs =
  convert_ppt_to_pdf_def try_body_def except_handler_def finally_block_def startswith_def Let_def

lemmas run_defs =
  main_def candidates_def ppt_files_def finish_def loop_body_def should_convert_def
  write_manifest_def makedirs_exist_ok_def create_missing_def mkdir_def Let_def

lemmas sample_defs =
  sample_env_def sample_world_def empty_world_def raising_env_def unavailable_env_def
  broken_env_def

subsection \<open>The conversion of one file\<close>

lemma except_handler_no_release: "filter is_release (except_handler ip m) = []"
  by (simp add: except_handler_def)

lemma except_handler_no_com: "Com c r \<notin> set (except_handler ip m)"
  by (simp add: except_handler_def)

text \<open>
  Claim C10. When the input path (made absolute) does not exist at the call,
  \<^verbatim>\<open>convert_ppt_to_pdf\<close> prints the error line and returns \<open>False\<close>; it makes no COM call
  and leaves the world, the output path included, as it was.
\<close>

theorem convert_missing_input:
  "stat w (abspath e input_path) = None \<Longrightarrow>
   convert_ppt_to_pdf e w input_path output_path =
     (False, w,
      [Call_convert input_path output_path,
       Print (''Error: Input file not found at '' @ abspath e input_path)])"
  by (simp add: convert_ppt_to_pdf_def)

theorem convert_missing_input_witness:
  "stat (sample_world [] []) (abspath sample_env (source_file_of sample_env ''Gone.pptx'')) = None
   \<and> convert_ppt_to_pdf sample_env (sample_world [] [])
         (source_file_of sample_env ''Gone.pptx'') (target_file_of sample_env ''Gone.pptx'') =
       (False, sample_world [] [],
        [Call_convert (source_file_of sample_env ''Gone.pptx'') (target_file_of sample_env ''Gone.pptx''),
         Print (''Error: Input file not found at '' @ source_file_of sample_env ''Gone.pptx'')])"
proof -
  have missing:
    "stat (sample_world [] []) (abspath sample_env (source_file_of sample_env ''Gone.pptx'')) = None"
    by (simp add: sample_defs path_defs)
  have same: "abspath sample_env (source_file_of sample_env ''Gone.pptx'') = source_file_of sample_env ''Gone.pptx''"
    by (simp add: sample_env_def)
  show ?thesis
    using missing convert_missing_input [OF missing, of "target_file_of sample_env ''Gone.pptx''"]
    by (simp only: same simp_thms)
qed

text \<open>
  Claim C7. On every exit path of a conversion the handles that were obtained are
  released, the presentation first: when the application object was created and a
  presentation opened, the last two events are \<open>Close\<close> and \<open>Quit\<close>; when only the
  application object was created (the open call raised), the last event is \<open>Quit\<close>;
  nothing else is a release call. Whatever \<open>Close\<close> and \<open>Quit\<close> raise, the result, the
  world and every other event stay the same.
\<close>

theorem conversion_releases_handles:
  "convert_ppt_to_pdf e w input_path output_path = (r, w', out) \<Longrightarrow>
     (Com CreateObject None \<in> set out \<longrightarrow>
        (if (\<exists>ip. Com (Open ip) None \<in> set out)
         then \<exists>pre. out = pre @ [Com Close (close_presentation e), Com Quit (quit_application e)]
                \<and> filter is_release pre = []
         else \<exists>pre. out = pre @ [Com Quit (quit_application e)] \<and> filter is_release pre = []))
   \<and> (Com CreateObject None \<notin> set out \<longrightarrow> filter is_release out = [])
   \<and> (\<forall>c q. \<exists>out2.
          convert_ppt_to_pdf (e\<lparr>close_presentation := c, quit_application := q\<rparr>) w input_path output_path
            = (r, w', out2)
          \<and> filter (\<lambda>ev. \<not> is_release ev) out2 = filter (\<lambda>ev. \<not> is_release ev) out)"
  unfolding convert_ppt_to_pdf_def try_body_def finally_block_def Let_def
  by (auto simp: except_handler_no_release except_handler_no_com
      split: if_splits option.splits sum.splits)

theorem conversion_releases_handles_witness:
  "convert_ppt_to_pdf raising_env (sample_world [(''Deck.pptx'', 10)] [])
      (source_file_of sample_env ''Deck.pptx'') (target_file_of sample_env ''Deck.pptx'') =
     (False, sample_world [(''Deck.pptx'', 10)] [],
      [Call_convert (source_file_of sample_env ''Deck.pptx'') (target_file_of sample_env ''Deck.pptx''),
       Print ''Converting Deck.pptx...'',
       Com CreateObject None,
       Com (Open (source_file_of sample_env ''Deck.pptx'')) None,
       Com (SaveAs (target_file_of sample_env ''Deck.pptx'') 32) (Some ''The disk is full''),
       Print ''Error during conversion of Deck.pptx: The disk is full'',
       Com Close (Some ''The RPC server is unavailable''),
       Com Quit None])
   \<and> (\<exists>pre. snd (snd (convert_ppt_to_pdf raising_env (sample_world [(''Deck.pptx'', 10)] [])
          (source_file_of sample_env ''Deck.pptx'') (target_file_of sample_env ''Deck.pptx''))) =
        pre @ [Com Close (Some ''The RPC server is unavailable''), Com Quit None]
        \<and> filter is_release pre = [])"
proof -
  let ?i = "source_file_of sample_env ''Deck.pptx''"
  let ?p = "target_file_of sample_env ''Deck.pptx''"
  let ?w = "sample_world [(''Deck.pptx'', 10)] []"
  let ?out = "[Call_convert ?i ?p,
       Print ''Converting Deck.pptx...'',
       Com CreateObject None,
       Com (Open ?i) None,
       Com (SaveAs ?p 32) (Some ''The disk is full''),
       Print ''Error during conversion of Deck.pptx: The disk is full'',
       Com Close (Some ''The RPC server is unavailable''),
       Com Quit None]"
  have run: "convert_ppt_to_pdf raising_env ?w ?i ?p = (False, ?w, ?out)"
    by (simp add: convert_defs sample_defs path_defs)
  have cl: "close_presentation raising_env = Some ''The RPC server is unavailable''"
    and qu: "quit_application raising_env = None"
    by (simp_all add: sample_defs)
  from conversion_releases_handles [OF run]
  have "\<exists>pre. ?out = pre @ [Com Close (close_presentation raising_env), Com Quit (quit_application raising_env)]
          \<and> filter is_release pre = []"
    by (simp del: append_eq_Cons_conv Cons_eq_append_conv)
  then show ?thesis
    by (simp only: run cl qu snd_conv simp_thms)
qed

subsection \<open>One iteration of the loop\<close>

lemma conversions_append: "conversions (xs @ ys) = conversions xs @ conversions ys"
  by (induction xs rule: conversions.induct) simp_all

lemma conversions_convert:
  "conversions (snd (snd (convert_ppt_to_pdf e w i p))) = [(i, p)]"
  by (simp add: convert_defs conversions_append split: option.splits sum.splits)

lemma should_convert_missing:
  "stat w target_file = None \<Longrightarrow> should_convert w f source_file target_file = Inr (True, [])"
  by (simp add: should_convert_def)

lemma should_convert_present:
  "stat w target_file = Some t \<Longrightarrow> stat w source_file = Some s \<Longrightarrow>
   should_convert w f source_file target_file =
     (if s < t then Inr (False, [Print (''Skipping '' @ f @ '' (PDF is up to date)'')])
      else Inr (True, []))"
  by (simp add: should_convert_def)

lemma loop_body_convert:
  "should_convert w f (path_join sd f) (path_join td (pdf_filename f)) = Inr (True, []) \<Longrightarrow>
   loop_body e sd td f (w, out, gl) =
     (case convert_ppt_to_pdf e w (path_join sd f) (path_join td (pdf_filename f)) of
        (success, w', out2) \<Rightarrow>
          Inr (w', out @ out2, if success then gl @ [guide_entry_of f] else gl))"
  by (simp add: loop_body_def)

lemma loop_body_skip:
  "should_convert w f (path_join sd f) (path_join td (pdf_filename f)) = Inr (False, out1) \<Longrightarrow>
   loop_body e sd td f (w, out, gl) = Inr (w, out @ out1, gl @ [guide_entry_of f])"
  by (simp add: loop_body_def)

text \<open>
  Claim C2. For a candidate in any state of the loop: when the derived target path does
  not exist, the conversion is attempted; when the target exists (and the source can be
  stat'ed), the conversion is skipped, with the world untouched, exactly when the
  target's modification time is strictly greater than the source's, and attempted when
  it is equal or earlier. In each case the iteration returns.
\<close>

theorem conversion_attempted_iff_stale:
  "(stat w (path_join td (pdf_filename f)) = None \<longrightarrow>
      (\<exists>w' new gl'. loop_body e sd td f (w, out, gl) = Inr (w', out @ new, gl') \<and>
         conversions new = [(path_join sd f, path_join td (pdf_filename f))]))
   \<and> (\<forall>t s. stat w (path_join td (pdf_filename f)) = Some t \<and> stat w (path_join sd f) = Some s \<longrightarrow>
      (\<exists>w' new gl'. loop_body e sd td f (w, out, gl) = Inr (w', out @ new, gl') \<and>
         (if s < t then conversions new = [] \<and> w' = w
          else conversions new = [(path_join sd f, path_join td (pdf_filename f))])))"
proof (intro conjI impI allI)
  let ?src = "path_join sd f" and ?tgt = "path_join td (pdf_filename f)"
  obtain r w2 out2 where c: "convert_ppt_to_pdf e w ?src ?tgt = (r, w2, out2)"
    by (cases "convert_ppt_to_pdf e w ?src ?tgt") auto
  have cv: "conversions out2 = [(?src, ?tgt)]"
    using conversions_convert [of e w ?src ?tgt] c by simp
  {
    assume "stat w ?tgt = None"
    then have "loop_body e sd td f (w, out, gl) =
        Inr (w2, out @ out2, if r then gl @ [guide_entry_of f] else gl)"
      by (simp add: loop_body_convert should_convert_missing c)
    with cv show "\<exists>w' new gl'. loop_body e sd td f (w, out, gl) = Inr (w', out @ new, gl') \<and>
         conversions new = [(?src, ?tgt)]"
      by blast
  }
  {
    fix t s
    assume st: "stat w ?tgt = Some t \<and> stat w ?src = Some s"
    show "\<exists>w' new gl'. loop_body e sd td f (w, out, gl) = Inr (w', out @ new, gl') \<and>
         (if s < t then conversions new = [] \<and> w' = w else conversions new = [(?src, ?tgt)])"
    proof (cases "s < t")
      case True
      with st have "loop_body e sd td f (w, out, gl) =
          Inr (w, out @ [Print (''Skipping '' @ f @ '' (PDF is up to date)'')], gl @ [guide_entry_of f])"
        by (simp add: loop_body_skip should_convert_present)
      with True show ?thesis by force
    next
      case False
      with st have "loop_body e sd td f (w, out, gl) =
          Inr (w2, out @ out2, if r then gl @ [guide_entry_of f] else gl)"
        by (simp add: loop_body_convert should_convert_present c)
      with False cv show ?thesis by force
    qed
  }
qed


theorem conversion_attempted_iff_stale_witness:
  "stat (sample_world [(''Deck.pptx'', 10)] [(''Deck.pdf'', 10)])
      (path_join (target_dir_of sample_env) (pdf_filename ''Deck.pptx'')) = Some 10
   \<and> stat (sample_world [(''Deck.pptx'', 10)] [(''Deck.pdf'', 10)])
      (path_join (source_dir_of sample_env) ''Deck.pptx'') = Some 10
   \<and> (\<exists>w' new gl'.
        loop_body sample_env (source_dir_of sample_env) (target_dir_of sample_env) ''Deck.pptx''
          (sample_world [(''Deck.pptx'', 10)] [(''Deck.pdf'', 10)], [], []) = Inr (w', [] @ new, gl')
        \<and> conversions new =
            [(path_join (source_dir_of sample_env) ''Deck.pptx'',
              path_join (target_dir_of sample_env) (pdf_filename ''Deck.pptx''))])"
proof -
  let ?w = "sample_world [(''Deck.pptx'', 10)] [(''Deck.pdf'', 10)]"
  have t: "stat ?w (path_join (target_dir_of sample_env) (pdf_filename ''Deck.pptx'')) = Some 10"
    by (simp add: sample_defs path_defs)
  have s: "stat ?w (path_join (source_dir_of sample_env) ''Deck.pptx'') = Some 10"
    by (simp add: sample_defs path_defs)
  from conversion_attempted_iff_stale
    [of ?w "target_dir_of sample_env" "''Deck.pptx''" sample_env "source_dir_of sample_env" "[]" "[]"]
  have "\<forall>t s. stat ?w (path_join (target_dir_of sample_env) (pdf_filename ''Deck.pptx'')) = Some t \<and>
           stat ?w (path_join (source_dir_of sample_env) ''Deck.pptx'') = Some s \<longrightarrow>
      (\<exists>w' new gl'. loop_body sample_env (source_dir_of sample_env) (target_dir_of sample_env) ''Deck.pptx'' (?w, [], []) = Inr (w', [] @ new, gl') \<and>
         (if s < t then conversions new = [] \<and> w' = ?w
          else conversions new = [(path_join (source_dir_of sample_env) ''Deck.pptx'', path_join (target_dir_of sample_env) (pdf_filename ''Deck.pptx''))]))"
    by (rule conjunct2)
  from this [rule_format, of 10 10] t s show ?thesis
    by (simp only: simp_thms less_irrefl if_False)
qed


subsection \<open>File names\<close>

lemma split_at_last:
  assumes "c \<in> set xs"
  shows "\<exists>ys. xs = ys @ c # rev (takeWhile (\<lambda>x. x \<noteq> c) (rev xs))"
proof -
  let ?P = "\<lambda>x. x \<noteq> c"
  from assms have "dropWhile ?P (rev xs) \<noteq> []" by simp
  then obtain z zs where d: "dropWhile ?P (rev xs) = z # zs" by (cases "dropWhile ?P (rev xs)") auto
  then have "\<not> ?P z" using hd_dropWhile [of ?P "rev xs"] by force
  then have z: "z = c" by simp
  have "rev xs = takeWhile ?P (rev xs) @ c # zs"
    using takeWhile_dropWhile_id [of ?P "rev xs"] d z by simp
  then have "rev (rev xs) = rev (takeWhile ?P (rev xs) @ c # zs)" by simp
  then have "xs = rev zs @ c # rev (takeWhile ?P (rev xs))" by simp
  then show ?thesis by blast
qed

lemma basename_suffix: "\<exists>hd. p = hd @ basename p"
proof -
  let ?P = "\<lambda>c. \<not> is_sep c"
  have "rev (dropWhile ?P (rev p)) @ rev (takeWhile ?P (rev p)) =
        rev (takeWhile ?P (rev p) @ dropWhile ?P (rev p))"
    by (simp only: rev_append)
  also have "\<dots> = rev (rev p)" by (simp only: takeWhile_dropWhile_id)
  also have "\<dots> = p" by simp
  finally have "p = rev (dropWhile ?P (rev p)) @ basename p"
    by (simp add: basename_def)
  then show ?thesis by blast
qed

lemma splitext_concat: "fst (splitext p) @ snd (splitext p) = p"
proof (cases "CHR ''.'' \<in> set (basename p)")
  case True
  let ?ext = "rev (takeWhile (\<lambda>c. c \<noteq> CHR ''.'') (rev (basename p)))"
  from split_at_last [OF True] obtain ys where ys: "basename p = ys @ CHR ''.'' # ?ext" by blast
  from basename_suffix obtain h where h: "p = h @ basename p" by blast
  have p: "p = (h @ ys) @ CHR ''.'' # ?ext" using h ys by simp
  have "length p = length (h @ ys) + length ?ext + 1" by (subst p) simp
  then have "take (length p - length ?ext - 1) p = h @ ys"
    by (subst (2) p) simp
  then have "take (length p - length ?ext - 1) p @ CHR ''.'' # ?ext = p" using p by simp
  then show ?thesis by (simp add: splitext_def Let_def)
next
  case False
  then show ?thesis by (simp add: splitext_def Let_def)
qed

lemma lower_char_dot: "lower_char c = CHR ''.'' \<Longrightarrow> c = CHR ''.''"
proof (cases "(65::nat) \<le> of_char c \<and> of_char c \<le> (90::nat)")
  case True
  assume "lower_char c = CHR ''.''"
  with True have "char_of (of_char c + (32::nat)) = CHR ''.''" by (simp add: lower_char_def)
  then have "(of_char (char_of (of_char c + (32::nat)) :: char) :: nat) = of_char (CHR ''.'')" by simp
  then have "(of_char c + 32) mod 256 = (46::nat)" by simp
  with True show ?thesis by simp
next
  case False
  assume "lower_char c = CHR ''.''"
  with False show ?thesis by (auto simp: lower_char_def)
qed

lemma lower_char_letter:
  "lower_char c = x \<Longrightarrow> x = CHR ''p'' \<or> x = CHR ''t'' \<or> x = CHR ''x'' \<Longrightarrow>
   c \<noteq> CHR ''.'' \<and> \<not> is_sep c"
  by (auto simp: lower_char_def is_sep_def sep_def altsep_def)

lemma snd_splitext_suffix:
  assumes f: "f = g @ CHR ''.'' # cs"
    and cs: "\<forall>c\<in>set cs. c \<noteq> CHR ''.'' \<and> \<not> is_sep c"
  shows "snd (splitext f) = [] \<or> snd (splitext f) = CHR ''.'' # cs"
proof -
  have r: "rev f = rev cs @ CHR ''.'' # rev g" using f by simp
  have "takeWhile (\<lambda>c. \<not> is_sep c) (rev f) =
          rev cs @ takeWhile (\<lambda>c. \<not> is_sep c) (CHR ''.'' # rev g)"
    unfolding r using cs by (intro takeWhile_append2) simp
  then have b: "rev (basename f) = rev cs @ CHR ''.'' # takeWhile (\<lambda>c. \<not> is_sep c) (rev g)"
    by (simp add: basename_def is_sep_def sep_def altsep_def)
  have "takeWhile (\<lambda>c. c \<noteq> CHR ''.'') (rev (basename f)) = rev cs"
    unfolding b using cs by (subst takeWhile_append2) simp_all
  then show ?thesis by (simp add: splitext_def Let_def)
qed

lemma is_ppt_suffix:
  assumes "is_ppt f"
  shows "\<exists>g cs. f = g @ CHR ''.'' # cs \<and> (\<forall>c\<in>set cs. c \<noteq> CHR ''.'' \<and> \<not> is_sep c)
           \<and> (lower (CHR ''.'' # cs) = ''.pptx'' \<or> lower (CHR ''.'' # cs) = ''.ppt'')"
proof -
  from assms consider (x) "endswith (lower f) ''.pptx''" | (t) "endswith (lower f) ''.ppt''"
    by (auto simp: is_ppt_def)
  then show ?thesis
  proof cases
    case x
    let ?s = "drop (length f - 5) f"
    from x have m: "map lower_char ?s = ''.pptx''"
      by (simp add: endswith_def lower_def drop_map eval_nat_numeral)
    then obtain a b c d e where s: "?s = [a, b, c, d, e]"
      and l: "lower_char a = CHR ''.''" "lower_char b = CHR ''p''" "lower_char c = CHR ''p''"
        "lower_char d = CHR ''t''" "lower_char e = CHR ''x''"
      by (auto simp: map_eq_Cons_conv)
    have a: "a = CHR ''.''" using l(1) by (rule lower_char_dot)
    have f: "f = take (length f - 5) f @ CHR ''.'' # [b, c, d, e]"
      using s a append_take_drop_id [of "length f - 5" f] by simp
    have nd: "\<forall>c'\<in>set [b, c, d, e]. c' \<noteq> CHR ''.'' \<and> \<not> is_sep c'"
      using l(2-5) lower_char_letter by simp
    have "lower (CHR ''.'' # [b, c, d, e]) = ''.pptx''"
      using l by (simp add: lower_def lower_char_def)
    with f nd show ?thesis by blast
  next
    case t
    let ?s = "drop (length f - 4) f"
    from t have m: "map lower_char ?s = ''.ppt''"
      by (simp add: endswith_def lower_def drop_map eval_nat_numeral)
    then obtain a b c d where s: "?s = [a, b, c, d]"
      and l: "lower_char a = CHR ''.''" "lower_char b = CHR ''p''" "lower_char c = CHR ''p''"
        "lower_char d = CHR ''t''"
      by (auto simp: map_eq_Cons_conv)
    have a: "a = CHR ''.''" using l(1) by (rule lower_char_dot)
    have f: "f = take (length f - 4) f @ CHR ''.'' # [b, c, d]"
      using s a append_take_drop_id [of "length f - 4" f] by simp
    have nd: "\<forall>c'\<in>set [b, c, d]. c' \<noteq> CHR ''.'' \<and> \<not> is_sep c'"
      using l(2-4) lower_char_letter by simp
    have "lower (CHR ''.'' # [b, c, d]) = ''.ppt''"
      using l by (simp add: lower_def lower_char_def)
    with f nd show ?thesis by blast
  qed
qed

lemma is_ppt_extension:
  assumes "is_ppt f" and "snd (splitext f) \<noteq> []"
  shows "lower (snd (splitext f)) = ''.pptx'' \<or> lower (snd (splitext f)) = ''.ppt''"
proof -
  from is_ppt_suffix [OF assms(1)] obtain g cs where
    f: "f = g @ CHR ''.'' # cs" and cs: "\<forall>c\<in>set cs. c \<noteq> CHR ''.'' \<and> \<not> is_sep c"
    and l: "lower (CHR ''.'' # cs) = ''.pptx'' \<or> lower (CHR ''.'' # cs) = ''.ppt''"
    by blast
  from snd_splitext_suffix [OF f cs] assms(2) have "snd (splitext f) = CHR ''.'' # cs" by simp
  with l show ?thesis by simp
qed

lemma convert_stat_frame:
  "convert_ppt_to_pdf e w i p = (r, w', out) \<Longrightarrow> q \<noteq> abspath e p \<Longrightarrow> stat w' q = stat w q"
  by (auto simp: convert_defs split: if_splits option.splits sum.splits)

lemma should_convert_cases:
  "should_convert w f s t = Inl ''FileNotFoundError''
   \<or> should_convert w f s t = Inr (True, [])
   \<or> should_convert w f s t = Inr (False, [Print (''Skipping '' @ f @ '' (PDF is up to date)'')])"
  by (auto simp: should_convert_def split: option.splits)

lemma loop_body_cases:
  assumes lb: "loop_body e sd td f (w, out, gl) = Inr (w', out', gl')"
  shows "(w' = w \<and> gl' = gl @ [guide_entry_of f] \<and> conversions (drop (length out) out') = [])
       \<or> (\<exists>r out2. convert_ppt_to_pdf e w (path_join sd f) (path_join td (pdf_filename f)) = (r, w', out2)
             \<and> out' = out @ out2
             \<and> gl' = (if r then gl @ [guide_entry_of f] else gl)
             \<and> conversions (drop (length out) out') = [(path_join sd f, path_join td (pdf_filename f))])"
proof -
  let ?src = "path_join sd f" and ?tgt = "path_join td (pdf_filename f)"
  obtain r w2 out2 where c: "convert_ppt_to_pdf e w ?src ?tgt = (r, w2, out2)"
    by (cases "convert_ppt_to_pdf e w ?src ?tgt") auto
  have cv: "conversions out2 = [(?src, ?tgt)]"
    using conversions_convert [of e w ?src ?tgt] c by simp
  from should_convert_cases [of w f ?src ?tgt]
  consider (err) "should_convert w f ?src ?tgt = Inl ''FileNotFoundError''"
    | (conv) "should_convert w f ?src ?tgt = Inr (True, [])"
    | (skip) "should_convert w f ?src ?tgt = Inr (False, [Print (''Skipping '' @ f @ '' (PDF is up to date)'')])"
    by blast
  then show ?thesis
  proof cases
    case err
    with lb show ?thesis by (simp add: loop_body_def)
  next
    case conv
    with lb c have "w' = w2" "out' = out @ out2" "gl' = (if r then gl @ [guide_entry_of f] else gl)"
      by (simp_all add: loop_body_convert)
    with c cv show ?thesis by simp
  next
    case skip
    with lb have "w' = w" "out' = out @ [Print (''Skipping '' @ f @ '' (PDF is up to date)'')]"
      "gl' = gl @ [guide_entry_of f]"
      by (simp_all add: loop_body_skip)
    then show ?thesis by simp
  qed
qed

lemma splitext_suffix:
  assumes f: "f = g @ CHR ''.'' # cs"
    and cs: "\<forall>c\<in>set cs. c \<noteq> CHR ''.'' \<and> \<not> is_sep c"
  shows "splitext f =
     (if list_ex (\<lambda>c. c \<noteq> CHR ''.'') (basename g) then (g, CHR ''.'' # cs) else (f, []))"
proof -
  have r: "rev f = rev cs @ CHR ''.'' # rev g" using f by simp
  have "takeWhile (\<lambda>c. \<not> is_sep c) (rev f) =
          rev cs @ takeWhile (\<lambda>c. \<not> is_sep c) (CHR ''.'' # rev g)"
    unfolding r using cs by (intro takeWhile_append2) simp
  then have b: "rev (basename f) = rev cs @ CHR ''.'' # takeWhile (\<lambda>c. \<not> is_sep c) (rev g)"
    by (simp add: basename_def is_sep_def sep_def altsep_def)
  have tw: "takeWhile (\<lambda>c. c \<noteq> CHR ''.'') (rev (basename f)) = rev cs"
    unfolding b using cs by (subst takeWhile_append2) simp_all
  have "rev (rev (basename f)) = rev (rev cs @ CHR ''.'' # takeWhile (\<lambda>c. \<not> is_sep c) (rev g))"
    by (simp only: b)
  then have bn: "basename f = basename g @ CHR ''.'' # cs"
    by (simp add: basename_def)
  have dot: "CHR ''.'' \<in> set (basename f)" unfolding bn by simp
  have stem: "take (length (basename f) - length cs - 1) (basename f) = basename g"
    unfolding bn by simp
  have tk: "take (length f - length cs - 1) f = g" unfolding f by simp
  show ?thesis
    unfolding splitext_def Let_def tw rev_rev_ident length_rev stem tk
    using dot by simp
qed

lemma candidate_base_name:
  assumes "is_ppt f"
  shows "\<exists>g ext. f = g @ ext \<and> (lower ext = ''.pptx'' \<or> lower ext = ''.ppt'')
          \<and> fst (splitext f) = (if list_ex (\<lambda>c. c \<noteq> CHR ''.'') (basename g) then g else f)"
proof -
  from is_ppt_suffix [OF assms] obtain g cs where
    f: "f = g @ CHR ''.'' # cs" and cs: "\<forall>c\<in>set cs. c \<noteq> CHR ''.'' \<and> \<not> is_sep c"
    and l: "lower (CHR ''.'' # cs) = ''.pptx'' \<or> lower (CHR ''.'' # cs) = ''.ppt''"
    by blast
  have "fst (splitext f) = (if list_ex (\<lambda>c. c \<noteq> CHR ''.'') (basename g) then g else f)"
    unfolding splitext_suffix [OF f cs] by simp
  with f l show ?thesis by blast
qed

lemma takeWhile_stops:
  assumes "\<forall>c\<in>set xs. P c" and "ys = [] \<or> \<not> P (hd ys)"
  shows "takeWhile P (xs @ ys) = xs"
proof -
  have "takeWhile P ys = []" using assms(2) by (cases ys) auto
  moreover have "takeWhile P (xs @ ys) = xs @ takeWhile P ys"
    using assms(1) by (intro takeWhile_append2) simp
  ultimately show ?thesis by simp
qed

lemma basename_path_join:
  assumes "\<not> list_ex is_sep name"
  shows "basename (path_join td name) = name"
proof -
  from assms have all: "\<forall>c\<in>set (rev name). \<not> is_sep c" by (simp add: list_ex_iff)
  show ?thesis
  proof (cases "td = [] \<or> is_sep (last td)")
    case True
    then have "rev td = [] \<or> \<not> \<not> is_sep (hd (rev td))" by (auto simp: hd_rev)
    from takeWhile_stops [OF all this]
    have "takeWhile (\<lambda>c. \<not> is_sep c) (rev (td @ name)) = rev name" by simp
    moreover from True have "path_join td name = td @ name" by (simp add: path_join_def)
    ultimately show ?thesis by (simp add: basename_def)
  next
    case False
    have "sep # rev td = [] \<or> \<not> \<not> is_sep (hd (sep # rev td))" by (simp add: is_sep_def)
    from takeWhile_stops [OF all this]
    have "takeWhile (\<lambda>c. \<not> is_sep c) (rev (td @ sep # name)) = rev name" by simp
    moreover from False have "path_join td name = td @ sep # name" by (simp add: path_join_def)
    ultimately show ?thesis by (simp add: basename_def)
  qed
qed

lemma path_join_inside:
  "startswith (path_join td name) td"
  "td \<noteq> [] \<Longrightarrow> \<not> is_sep (last td) \<Longrightarrow> path_join td name = td @ [sep] @ name"
  by (simp_all add: path_join_def startswith_def)

text \<open>
  Claim C8, as amended. For a candidate the loop has processed, let \<open>base\<close> be the file
  name with its extension (\<^verbatim>\<open>.pptx\<close> or \<^verbatim>\<open>.ppt\<close>, in any letter case) removed when some
  character other than a dot stands before the extension, and the whole file name when
  only dots, or nothing, stand before it. Then the entry appended, if any, is exactly the
  object with \<open>title\<close> equal to \<open>base\<close> and \<open>filename\<close> equal to \<open>base\<close> followed by
  \<^verbatim>\<open>.pdf\<close>; the only conversion requested is from the source file to the path of that
  file name inside the target directory (the directory, a separator, the file name);
  and that path is the only one whose \<open>stat\<close> entry the iteration can change.
\<close>

theorem target_and_entry_naming:
  assumes cand: "is_ppt f"
    and lb: "loop_body e sd td f (w, out, gl) = Inr (w', out', gl')"
  shows "\<exists>g ext base.
        f = g @ ext \<and> (lower ext = ''.pptx'' \<or> lower ext = ''.ppt'')
      \<and> base = (if list_ex (\<lambda>c. c \<noteq> CHR ''.'') (basename g) then g else f)
      \<and> (gl' = gl \<or> gl' = gl @ [[(''title'', base), (''filename'', base @ ''.pdf'')]])
      \<and> set (conversions (drop (length out) out'))
            \<subseteq> {(path_join sd f, path_join td (base @ ''.pdf''))}
      \<and> startswith (path_join td (base @ ''.pdf'')) td
      \<and> (td \<noteq> [] \<and> \<not> is_sep (last td) \<longrightarrow>
            path_join td (base @ ''.pdf'') = td @ [sep] @ base @ ''.pdf'')
      \<and> (\<not> list_ex is_sep f \<longrightarrow> basename (path_join td (base @ ''.pdf'')) = base @ ''.pdf'')
      \<and> (\<forall>q. stat w' q \<noteq> stat w q \<longrightarrow> q = abspath e (path_join td (base @ ''.pdf'')))"
proof -
  from candidate_base_name [OF cand] obtain g ext where
    f: "f = g @ ext" and l: "lower ext = ''.pptx'' \<or> lower ext = ''.ppt''"
    and b: "fst (splitext f) = (if list_ex (\<lambda>c. c \<noteq> CHR ''.'') (basename g) then g else f)"
    by blast
  let ?base = "if list_ex (\<lambda>c. c \<noteq> CHR ''.'') (basename g) then g else f"
  have n: "pdf_filename f = ?base @ ''.pdf''"
    by (simp only: pdf_filename_def name_without_ext_def b)
  have ge: "guide_entry_of f = [(''title'', ?base), (''filename'', ?base @ ''.pdf'')]"
    by (simp only: guide_entry_of_def pdf_filename_def name_without_ext_def b)
  from loop_body_cases [OF lb]
  have 3: "gl' = gl \<or> gl' = gl @ [[(''title'', ?base), (''filename'', ?base @ ''.pdf'')]]"
    unfolding ge by (auto split: if_splits)
  from loop_body_cases [OF lb]
  have 4: "set (conversions (drop (length out) out')) \<subseteq>
        {(path_join sd f, path_join td (?base @ ''.pdf''))}"
    unfolding n by auto
  have 5: "startswith (path_join td (?base @ ''.pdf'')) td" by (rule path_join_inside(1))
  have 6: "td \<noteq> [] \<and> \<not> is_sep (last td) \<longrightarrow>
            path_join td (?base @ ''.pdf'') = td @ [sep] @ ?base @ ''.pdf''"
    using path_join_inside(2) by blast
  have 7: "\<not> list_ex is_sep f \<longrightarrow> basename (path_join td (?base @ ''.pdf'')) = ?base @ ''.pdf''"
  proof
    assume "\<not> list_ex is_sep f"
    then have "\<not> list_ex is_sep f" "\<not> list_ex is_sep g" unfolding f by (simp_all add: list_ex_iff)
    then have "\<not> list_ex is_sep (?base @ ''.pdf'')"
      by (simp add: list_ex_iff is_sep_def sep_def altsep_def)
    then show "basename (path_join td (?base @ ''.pdf'')) = ?base @ ''.pdf''"
      by (rule basename_path_join)
  qed
  from loop_body_cases [OF lb]
  have 8: "\<forall>q. stat w' q \<noteq> stat w q \<longrightarrow> q = abspath e (path_join td (?base @ ''.pdf''))"
    unfolding n using convert_stat_frame by blast
  show ?thesis
    by (rule exI [of _ g], rule exI [of _ ext], rule exI [of _ ?base])
       (intro conjI f l refl 3 4 5 6 7 8)
qed

theorem target_and_entry_naming_witness:
  "is_ppt ''Deck.PPT''
   \<and> loop_body sample_env (source_dir_of sample_env) (target_dir_of sample_env) ''Deck.PPT''
      (sample_world [(''Deck.PPT'', 10)] [], [], []) =
     Inr ((sample_world [(''Deck.PPT'', 10)] [])
            \<lparr>stat := (stat (sample_world [(''Deck.PPT'', 10)] []))
                (''C:'' @ [CHR 0x5C] @ ''work'' @ [CHR 0x5C] @ ''public'' @ [CHR 0x5C]
                   @ ''guides'' @ [CHR 0x5C] @ ''Deck.pdf'' \<mapsto> 100)\<rparr>,
          [Call_convert
             (''C:'' @ [CHR 0x5C] @ ''work'' @ [CHR 0x5C] @ ''guide_source'' @ [CHR 0x5C] @ ''Deck.PPT'')
             (''C:'' @ [CHR 0x5C] @ ''work'' @ [CHR 0x5C] @ ''public'' @ [CHR 0x5C]
                @ ''guides'' @ [CHR 0x5C] @ ''Deck.pdf''),
           Print ''Converting Deck.PPT...'',
           Com CreateObject None,
           Com (Open (''C:'' @ [CHR 0x5C] @ ''work'' @ [CHR 0x5C] @ ''guide_source'' @ [CHR 0x5C]
                        @ ''Deck.PPT'')) None,
           Com (SaveAs (''C:'' @ [CHR 0x5C] @ ''work'' @ [CHR 0x5C] @ ''public'' @ [CHR 0x5C]
                          @ ''guides'' @ [CHR 0x5C] @ ''Deck.pdf'') 32) None,
           Print ''  -> Success: Deck.pdf'',
           Com Close None,
           Com Quit None],
          [[(''title'', ''Deck''), (''filename'', ''Deck.pdf'')]])
   \<and> (\<exists>g ext. ''Deck.PPT'' = g @ ext \<and> (lower ext = ''.pptx'' \<or> lower ext = ''.ppt'')
         \<and> [[(''title'', ''Deck''), (''filename'', ''Deck.pdf'')]] =
             [[(''title'', if list_ex (\<lambda>c. c \<noteq> CHR ''.'') (basename g) then g else ''Deck.PPT''),
               (''filename'', (if list_ex (\<lambda>c. c \<noteq> CHR ''.'') (basename g) then g else ''Deck.PPT'')
                                @ ''.pdf'')]])"
proof -
  let ?w = "sample_world [(''Deck.PPT'', 10)] []"
  let ?tgt = "''C:'' @ [CHR 0x5C] @ ''work'' @ [CHR 0x5C] @ ''public'' @ [CHR 0x5C]
                   @ ''guides'' @ [CHR 0x5C] @ ''Deck.pdf''"
  let ?src = "''C:'' @ [CHR 0x5C] @ ''work'' @ [CHR 0x5C] @ ''guide_source'' @ [CHR 0x5C] @ ''Deck.PPT''"
  let ?w' = "?w\<lparr>stat := (stat ?w)(?tgt \<mapsto> 100)\<rparr>"
  let ?out = "[Call_convert ?src ?tgt,
           Print ''Converting Deck.PPT...'',
           Com CreateObject None,
           Com (Open ?src) None,
           Com (SaveAs ?tgt 32) None,
           Print ''  -> Success: Deck.pdf'',
           Com Close None,
           Com Quit None]"
  have cand: "is_ppt ''Deck.PPT''" by code_simp
  have run: "loop_body sample_env (source_dir_of sample_env) (target_dir_of sample_env) ''Deck.PPT''
      (?w, [], []) = Inr (?w', ?out, [[(''title'', ''Deck''), (''filename'', ''Deck.pdf'')]])"
    by (simp add: run_defs convert_defs sample_defs path_defs)
  from target_and_entry_naming [OF cand run] obtain g ext base where
    f: "''Deck.PPT'' = g @ ext" and l: "lower ext = ''.pptx'' \<or> lower ext = ''.ppt''"
    and b: "base = (if list_ex (\<lambda>c. c \<noteq> CHR ''.'') (basename g) then g else ''Deck.PPT'')"
    and e: "[[(''title'', ''Deck''), (''filename'', ''Deck.pdf'')]] = [] \<or>
            [[(''title'', ''Deck''), (''filename'', ''Deck.pdf'')]] =
              [] @ [[(''title'', base), (''filename'', base @ ''.pdf'')]]"
    by blast
  from e have e': "[[(''title'', ''Deck''), (''filename'', ''Deck.pdf'')]] =
              [[(''title'', base), (''filename'', base @ ''.pdf'')]]"
    by simp
  have 3: "\<exists>g ext. ''Deck.PPT'' = g @ ext \<and> (lower ext = ''.pptx'' \<or> lower ext = ''.ppt'')
         \<and> [[(''title'', ''Deck''), (''filename'', ''Deck.pdf'')]] =
             [[(''title'', if list_ex (\<lambda>c. c \<noteq> CHR ''.'') (basename g) then g else ''Deck.PPT''),
               (''filename'', (if list_ex (\<lambda>c. c \<noteq> CHR ''.'') (basename g) then g else ''Deck.PPT'')
                                @ ''.pdf'')]]"
    by (rule exI [of _ g], rule exI [of _ ext]) (intro conjI f l e' [unfolded b])
  show ?thesis by (intro conjI cand run 3)
qed

text \<open>
  Claim C8 as stated fails for a candidate with nothing but dots before its extension:
  the file \<^verbatim>\<open>.pptx\<close> passes the filter of line 75, \<^verbatim>\<open>os.path.splitext\<close> finds no extension
  in it, and the entry has the title \<^verbatim>\<open>.pptx\<close> and the file name \<^verbatim>\<open>.pptx.pdf\<close>: the
  extension is not removed.
\<close>

theorem extension_removed_counterexample:
  "is_ppt ''.pptx''
   \<and> loop_body sample_env (source_dir_of sample_env) (target_dir_of sample_env) ''.pptx''
      (sample_world [(''.pptx'', 10)] [], [], []) =
     Inr ((sample_world [(''.pptx'', 10)] [])
            \<lparr>stat := (stat (sample_world [(''.pptx'', 10)] []))
                (path_join (target_dir_of sample_env) ''.pptx.pdf'' \<mapsto> 100)\<rparr>,
          [Call_convert (path_join (source_dir_of sample_env) ''.pptx'')
                        (path_join (target_dir_of sample_env) ''.pptx.pdf''),
           Print ''Converting .pptx...'',
           Com CreateObject None,
           Com (Open (path_join (source_dir_of sample_env) ''.pptx'')) None,
           Com (SaveAs (path_join (target_dir_of sample_env) ''.pptx.pdf'') 32) None,
           Print ''  -> Success: .pptx.pdf'',
           Com Close None,
           Com Quit None],
          [[(''title'', ''.pptx''), (''filename'', ''.pptx.pdf'')]])"
proof -
  have 1: "is_ppt ''.pptx''" by (simp add: string_defs)
  have 2: "loop_body sample_env (source_dir_of sample_env) (target_dir_of sample_env) ''.pptx''
      (sample_world [(''.pptx'', 10)] [], [], []) =
     Inr ((sample_world [(''.pptx'', 10)] [])
            \<lparr>stat := (stat (sample_world [(''.pptx'', 10)] []))
                (path_join (target_dir_of sample_env) ''.pptx.pdf'' \<mapsto> 100)\<rparr>,
          [Call_convert (path_join (source_dir_of sample_env) ''.pptx'')
                        (path_join (target_dir_of sample_env) ''.pptx.pdf''),
           Print ''Converting .pptx...'',
           Com CreateObject None,
           Com (Open (path_join (source_dir_of sample_env) ''.pptx'')) None,
           Com (SaveAs (path_join (target_dir_of sample_env) ''.pptx.pdf'') 32) None,
           Print ''  -> Success: .pptx.pdf'',
           Com Close None,
           Com Quit None],
          [[(''title'', ''.pptx''), (''filename'', ''.pptx.pdf'')]])"
    by (simp add: run_defs convert_defs sample_defs path_defs)
  show ?thesis by (intro conjI 1 2)
qed

subsection \<open>The run\<close>



text \<open>
  Claim C9. Two source files with the same base name and different accepted extensions:
  \<^verbatim>\<open>Intro.pptx\<close> and \<^verbatim>\<open>Intro.ppt\<close> are both converted, to the same \<^verbatim>\<open>Intro.pdf\<close>, and the
  manifest holds two entries with the same title and the same file name.
\<close>

theorem duplicate_base_names:
  "fst (main sample_env (sample_world [(''Intro.pptx'', 10), (''Intro.ppt'', 150)] [])) = Returned
   \<and> conversions (snd (snd (main sample_env (sample_world [(''Intro.pptx'', 10), (''Intro.ppt'', 150)] [])))) =
       [(path_join (source_dir_of sample_env) ''Intro.pptx'', path_join (target_dir_of sample_env) ''Intro.pdf''),
        (path_join (source_dir_of sample_env) ''Intro.ppt'', path_join (target_dir_of sample_env) ''Intro.pdf'')]
   \<and> json (fst (snd (main sample_env (sample_world [(''Intro.pptx'', 10), (''Intro.ppt'', 150)] []))))
        (list_file_of sample_env) =
       Some [[(''title'', ''Intro''), (''filename'', ''Intro.pdf'')],
             [(''title'', ''Intro''), (''filename'', ''Intro.pdf'')]]"
  by (simp add: run_defs convert_defs sample_defs path_defs string_defs)

subsection \<open>What a run leaves unchanged, and when it returns\<close>

lemma convert_world:
  "convert_ppt_to_pdf e w i p = (r, w', out) \<Longrightarrow>
     w' = w \<or> (\<exists>t. w' = w\<lparr>stat := (stat w)(abspath e p \<mapsto> t)\<rparr>)"
  by (auto simp: convert_defs split: if_splits option.splits sum.splits)

lemma convert_frame:
  assumes "convert_ppt_to_pdf e w i p = (r, w', out)"
  shows "json w' = json w" and "listdir w' = listdir w"
    and "stat w q \<noteq> None \<Longrightarrow> stat w' q \<noteq> None"
  using convert_world [OF assms] by (auto simp del: not_None_eq)

lemma loop_body_frame:
  assumes "loop_body e sd td f (w, out, gl) = Inr (w', out', gl')"
  shows "json w' = json w" and "listdir w' = listdir w"
    and "stat w q \<noteq> None \<Longrightarrow> stat w' q \<noteq> None"
proof -
  from loop_body_cases [OF assms] convert_frame(1) show "json w' = json w" by blast
  from loop_body_cases [OF assms] convert_frame(2) show "listdir w' = listdir w" by blast
  assume "stat w q \<noteq> None"
  with loop_body_cases [OF assms] convert_frame(3) show "stat w' q \<noteq> None" by blast
qed

lemma loop_body_returns:
  assumes "stat w (path_join sd f) \<noteq> None"
  shows "\<exists>w' new gl'. loop_body e sd td f (w, out, gl) = Inr (w', out @ new, gl')"
proof -
  let ?src = "path_join sd f" and ?tgt = "path_join td (pdf_filename f)"
  obtain r w2 out2 where c: "convert_ppt_to_pdf e w ?src ?tgt = (r, w2, out2)"
    by (cases "convert_ppt_to_pdf e w ?src ?tgt") auto
  from assms have "should_convert w f ?src ?tgt \<noteq> Inl ''FileNotFoundError''"
    by (auto simp: should_convert_def split: option.splits)
  with should_convert_cases [of w f ?src ?tgt]
  consider (conv) "should_convert w f ?src ?tgt = Inr (True, [])"
    | (skip) "should_convert w f ?src ?tgt = Inr (False, [Print (''Skipping '' @ f @ '' (PDF is up to date)'')])"
    by blast
  then show ?thesis
  proof cases
    case conv
    then show ?thesis by (simp add: loop_body_convert c)
  next
    case skip
    then show ?thesis by (simp add: loop_body_skip)
  qed
qed

lemma process_files_returns:
  "\<forall>f\<in>set fs. stat w (path_join sd f) \<noteq> None \<Longrightarrow>
   \<exists>w' new gl'. process_files e sd td fs (w, out, gl) = Inr (w', out @ new, gl')
      \<and> json w' = json w \<and> listdir w' = listdir w"
proof (induction fs arbitrary: w out gl)
  case Nil
  show ?case by simp
next
  case (Cons f fs)
  then have "stat w (path_join sd f) \<noteq> None" by simp
  from loop_body_returns [OF this] obtain w1 new1 gl1
    where lb: "loop_body e sd td f (w, out, gl) = Inr (w1, out @ new1, gl1)" by blast
  have "\<forall>g\<in>set fs. stat w1 (path_join sd g) \<noteq> None"
    using Cons.prems loop_body_frame(3) [OF lb] by simp
  from Cons.IH [OF this, of "out @ new1" gl1] obtain w' new gl'
    where pf: "process_files e sd td fs (w1, out @ new1, gl1) = Inr (w', (out @ new1) @ new, gl')"
      and fr: "json w' = json w1" "listdir w' = listdir w1" by blast
  have "process_files e sd td (f # fs) (w, out, gl) = Inr (w', out @ (new1 @ new), gl')"
    using lb pf by simp
  moreover have "json w' = json w" "listdir w' = listdir w"
    using fr loop_body_frame(1,2) [OF lb] by simp_all
  ultimately show ?case by blast
qed

lemma create_missing_frame:
  "json (create_missing e w ps) = json w
   \<and> (\<forall>q. stat w q \<noteq> None \<longrightarrow> stat (create_missing e w ps) q = stat w q
            \<and> listdir (create_missing e w ps) q = listdir w q)"
proof (induction ps arbitrary: w)
  case Nil
  show ?case by (simp add: create_missing_def)
next
  case (Cons p ps)
  have step: "create_missing e w (p # ps) =
      create_missing e (if stat w p = None then mkdir e w p else w) ps"
    by (simp add: create_missing_def)
  show ?case
  proof (cases "stat w p = None")
    case True
    have m: "json (mkdir e w p) = json w"
      "\<And>q. stat w q \<noteq> None \<Longrightarrow> stat (mkdir e w p) q = stat w q \<and> listdir (mkdir e w p) q = listdir w q"
      using True by (auto simp: mkdir_def)
    show ?thesis unfolding step using True Cons.IH [of "mkdir e w p"] m
      by (auto simp del: not_None_eq)
  next
    case False
    then show ?thesis unfolding step using Cons.IH [of w] by (simp del: not_None_eq)
  qed
qed

lemma create_missing_json: "json (create_missing e w ps) = json w"
  using create_missing_frame [of e w ps] by (rule conjunct1)

lemma create_missing_stat:
  "stat w q \<noteq> None \<Longrightarrow> stat (create_missing e w ps) q = stat w q"
  using create_missing_frame [of e w ps] by (elim conjE allE [of _ q]) (simp del: not_None_eq)

lemma create_missing_listdir:
  "stat w q \<noteq> None \<Longrightarrow> listdir (create_missing e w ps) q = listdir w q"
  using create_missing_frame [of e w ps] by (elim conjE allE [of _ q]) (simp del: not_None_eq)

lemma makedirs_returns:
  "os_raises e (Makedirs name) = None \<Longrightarrow>
   makedirs_exist_ok e w parents name = Inr (create_missing e w (parents @ [name]))"
  by (simp add: makedirs_exist_ok_def)

lemma ppt_files_returns:
  "os_raises e (Listdir (source_dir_of e)) = None \<Longrightarrow> ppt_files e w = Inr (candidates e w)"
  by (simp add: ppt_files_def candidates_def)

lemma candidates_create_missing:
  assumes "stat w (source_dir_of e) \<noteq> None"
  shows "candidates e (create_missing e w ps) = candidates e w"
  using create_missing_listdir [OF assms, of e ps] by (simp add: candidates_def)

lemma write_manifest_writes:
  "os_raises e (Write_json (list_file_of e)) = None \<Longrightarrow>
   \<exists>w' out'. write_manifest e (w, out, gl) = (Returned, w', out')
     \<and> json w' = (json w)(list_file_of e \<mapsto> gl)"
  by (simp add: write_manifest_def Let_def)

lemma main_unfold:
  assumes "stat w (source_dir_of e) \<noteq> None"
    and "os_raises e (Makedirs (target_dir_of e)) = None"
    and "os_raises e (Listdir (source_dir_of e)) = None"
  shows "main e w =
     (if candidates e w = []
      then (SystemExit 0,
            create_missing e w [path_join (getcwd e) ''public'', target_dir_of e],
            [Print (''No PowerPoint files found in '' @ source_dir_of e),
             Print ''Please place your .pptx files there and run this script again.''])
      else finish e (source_dir_of e) (target_dir_of e) (candidates e w)
             (create_missing e w [path_join (getcwd e) ''public'', target_dir_of e],
              [Print (''Found '' @ str_nat (length (candidates e w)) @ '' PowerPoint files.'')], []))"
proof -
  let ?w1 = "create_missing e w [path_join (getcwd e) ''public'', target_dir_of e]"
  have m: "makedirs_exist_ok e w [path_join (getcwd e) ''public''] (target_dir_of e) = Inr ?w1"
    using makedirs_returns [OF assms(2)] by simp
  have p: "ppt_files e ?w1 = Inr (candidates e w)"
    using ppt_files_returns [OF assms(3)] candidates_create_missing [OF assms(1)] by simp
  have "main e w =
      (case makedirs_exist_ok e w [path_join (getcwd e) ''public''] (target_dir_of e) of
              Inl err \<Rightarrow> (Uncaught err, w, [])
            | Inr w1 \<Rightarrow>
                (case ppt_files e w1 of
                   Inl err \<Rightarrow> (Uncaught err, w1, [])
                 | Inr files \<Rightarrow>
                     if files = []
                     then (SystemExit 0, w1,
                           [Print (''No PowerPoint files found in '' @ source_dir_of e),
                            Print ''Please place your .pptx files there and run this script again.''])
                     else finish e (source_dir_of e) (target_dir_of e) files
                            (w1, [Print (''Found '' @ str_nat (length files) @ '' PowerPoint files.'')],
                             [])))"
    using assms(1) by (simp only: main_def Let_def if_False)
  also have "\<dots> = (if candidates e w = []
      then (SystemExit 0, ?w1,
            [Print (''No PowerPoint files found in '' @ source_dir_of e),
             Print ''Please place your .pptx files there and run this script again.''])
      else finish e (source_dir_of e) (target_dir_of e) (candidates e w)
             (?w1, [Print (''Found '' @ str_nat (length (candidates e w)) @ '' PowerPoint files.'')], []))"
    by (simp only: m p sum.case)
  finally show ?thesis .
qed

lemma main_early_exit:
  assumes "stat w (source_dir_of e) = None
    \<or> (os_raises e (Makedirs (target_dir_of e)) = None
        \<and> os_raises e (Listdir (source_dir_of e)) = None \<and> candidates e w = [])"
  shows "fst (main e w) = SystemExit 0 \<and> json (fst (snd (main e w))) = json w
         \<and> conversions (snd (snd (main e w))) = []"
proof (cases "stat w (source_dir_of e) = None")
  case True
  then show ?thesis by (simp add: main_def mkdir_def Let_def)
next
  case False
  with assms have ok: "os_raises e (Makedirs (target_dir_of e)) = None"
    "os_raises e (Listdir (source_dir_of e)) = None" and c: "candidates e w = []" by simp_all
  have "json (create_missing e w [path_join (getcwd e) ''public'', target_dir_of e]) = json w"
    by (rule create_missing_json)
  then show ?thesis unfolding main_unfold [OF False ok] using c by simp
qed

lemma main_makedirs_raises:
  assumes "stat w (source_dir_of e) \<noteq> None"
    and "os_raises e (Makedirs (target_dir_of e)) = Some m"
  shows "main e w = (Uncaught m, w, [])"
proof -
  have mk: "makedirs_exist_ok e w [path_join (getcwd e) ''public''] (target_dir_of e) = Inl m"
    using assms(2) by (simp add: makedirs_exist_ok_def)
  show ?thesis using assms(1) by (simp only: main_def Let_def if_False mk sum.case)
qed

lemma main_listdir_raises:
  assumes "stat w (source_dir_of e) \<noteq> None"
    and "os_raises e (Makedirs (target_dir_of e)) = None"
    and "os_raises e (Listdir (source_dir_of e)) = Some m"
  shows "main e w =
    (Uncaught m, create_missing e w [path_join (getcwd e) ''public'', target_dir_of e], [])"
proof -
  let ?w1 = "create_missing e w [path_join (getcwd e) ''public'', target_dir_of e]"
  have mk: "makedirs_exist_ok e w [path_join (getcwd e) ''public''] (target_dir_of e) = Inr ?w1"
    using makedirs_returns [OF assms(2)] by simp
  have p: "ppt_files e ?w1 = Inl m"
    using assms(3) by (simp add: ppt_files_def)
  show ?thesis using assms(1) by (simp only: main_def Let_def if_False mk p sum.case)
qed

lemma main_no_manifest:
  assumes "stat w (source_dir_of e) = None \<or> candidates e w = []"
  shows "fst (main e w) \<noteq> Returned \<and> json (fst (snd (main e w))) = json w
         \<and> conversions (snd (snd (main e w))) = []"
proof (cases "stat w (source_dir_of e) = None")
  case True
  then show ?thesis by (simp add: main_def mkdir_def Let_def)
next
  case sd: False
  with assms have c: "candidates e w = []" by simp
  let ?w1 = "create_missing e w [path_join (getcwd e) ''public'', target_dir_of e]"
  have j: "json ?w1 = json w" by (rule create_missing_json)
  show ?thesis
  proof (cases "os_raises e (Makedirs (target_dir_of e))")
    case (Some m)
    show ?thesis unfolding main_makedirs_raises [OF sd Some] by simp
  next
    case mk: None
    show ?thesis
    proof (cases "os_raises e (Listdir (source_dir_of e))")
      case (Some m)
      show ?thesis unfolding main_listdir_raises [OF sd mk Some] using j by simp
    next
      case None
      show ?thesis unfolding main_unfold [OF sd mk None] using c j by simp
    qed
  qed
qed

lemma main_completes:
  assumes sd: "stat w (source_dir_of e) \<noteq> None"
    and mk: "os_raises e (Makedirs (target_dir_of e)) = None"
    and ls: "os_raises e (Listdir (source_dir_of e)) = None"
    and cs: "candidates e w \<noteq> []"
    and src: "\<forall>f\<in>set (candidates e w). stat w (source_file_of e f) \<noteq> None"
    and wr: "os_raises e (Write_json (list_file_of e)) = None"
  shows "\<exists>w' out gl. main e w = (Returned, w', out) \<and> json w' (list_file_of e) = Some gl"
proof -
  let ?w1 = "create_missing e w [path_join (getcwd e) ''public'', target_dir_of e]"
  let ?fs = "candidates e w"
  let ?found = "[Print (''Found '' @ str_nat (length ?fs) @ '' PowerPoint files.'')]"
  have "\<forall>f\<in>set ?fs. stat ?w1 (path_join (source_dir_of e) f) \<noteq> None"
  proof
    fix f assume "f \<in> set ?fs"
    with src have n: "stat w (path_join (source_dir_of e) f) \<noteq> None"
      by (simp add: source_file_of_def del: not_None_eq)
    from create_missing_stat [OF n] n
    show "stat ?w1 (path_join (source_dir_of e) f) \<noteq> None" by (simp del: not_None_eq)
  qed
  from process_files_returns [OF this, of e "target_dir_of e" ?found "[]"]
  obtain w2 new gl where
    pf: "process_files e (source_dir_of e) (target_dir_of e) ?fs (?w1, ?found, []) =
         Inr (w2, ?found @ new, gl)"
    by blast
  from write_manifest_writes [OF wr, of w2 "?found @ new" gl] obtain w' out'
    where wm: "write_manifest e (w2, ?found @ new, gl) = (Returned, w', out')"
      and j: "json w' = (json w2)(list_file_of e \<mapsto> gl)" by blast
  have "main e w = (Returned, w', out')"
    unfolding main_unfold [OF sd mk ls] using cs pf wm by (simp add: finish_def)
  moreover from j have "json w' (list_file_of e) = Some gl" by simp
  ultimately show ?thesis by (intro exI conjI)
qed

text \<open>
  Claim C4, as amended. Whatever the COM calls raise, a run whose source directory exists
  and holds at least one matching file reaches its last line and writes the manifest,
  provided none of the file-system calls outside the conversion raises: creating the
  target directory, listing the source directory, reading the modification time of a
  source file, writing the manifest. A run whose source directory is missing, or holds
  no matching file, does not reach its last line: it attempts no conversion and writes no
  JSON file; with an existing source directory that is listed and holds no matching
  file, it ends through \<^verbatim>\<open>sys.exit(0)\<close>.
\<close>

theorem run_outcomes:
  "(stat w (source_dir_of e) = None \<or> candidates e w = [] \<longrightarrow>
       fst (main e w) \<noteq> Returned \<and> json (fst (snd (main e w))) = json w
       \<and> conversions (snd (snd (main e w))) = [])
   \<and> (stat w (source_dir_of e) \<noteq> None
        \<and> os_raises e (Makedirs (target_dir_of e)) = None
        \<and> os_raises e (Listdir (source_dir_of e)) = None
        \<and> candidates e w = [] \<longrightarrow>
       fst (main e w) = SystemExit 0)
   \<and> (stat w (source_dir_of e) \<noteq> None
        \<and> os_raises e (Makedirs (target_dir_of e)) = None
        \<and> os_raises e (Listdir (source_dir_of e)) = None
        \<and> candidates e w \<noteq> []
        \<and> (\<forall>f\<in>set (candidates e w). stat w (source_file_of e f) \<noteq> None)
        \<and> os_raises e (Write_json (list_file_of e)) = None \<longrightarrow>
       (\<exists>w' out gl. main e w = (Returned, w', out) \<and> json w' (list_file_of e) = Some gl))"
proof (intro conjI impI)
  assume "stat w (source_dir_of e) = None \<or> candidates e w = []"
  from main_no_manifest [OF this]
  show "fst (main e w) \<noteq> Returned" "json (fst (snd (main e w))) = json w"
    "conversions (snd (snd (main e w))) = []" by simp_all
next
  assume "stat w (source_dir_of e) \<noteq> None
        \<and> os_raises e (Makedirs (target_dir_of e)) = None
        \<and> os_raises e (Listdir (source_dir_of e)) = None
        \<and> candidates e w = []"
  then have "stat w (source_dir_of e) = None
    \<or> (os_raises e (Makedirs (target_dir_of e)) = None
        \<and> os_raises e (Listdir (source_dir_of e)) = None \<and> candidates e w = [])"
    by blast
  from main_early_exit [OF this]
  show "fst (main e w) = SystemExit 0" by simp
next
  assume a: "stat w (source_dir_of e) \<noteq> None
        \<and> os_raises e (Makedirs (target_dir_of e)) = None
        \<and> os_raises e (Listdir (source_dir_of e)) = None
        \<and> candidates e w \<noteq> []
        \<and> (\<forall>f\<in>set (candidates e w). stat w (source_file_of e f) \<noteq> None)
        \<and> os_raises e (Write_json (list_file_of e)) = None"
  then have sd: "stat w (source_dir_of e) \<noteq> None"
    and mk: "os_raises e (Makedirs (target_dir_of e)) = None"
    and ls: "os_raises e (Listdir (source_dir_of e)) = None"
    and cs: "candidates e w \<noteq> []"
    and src: "\<forall>f\<in>set (candidates e w). stat w (source_file_of e f) \<noteq> None"
    and wr: "os_raises e (Write_json (list_file_of e)) = None"
    by blast+
  from main_completes [OF sd mk ls cs src wr]
  show "\<exists>w' out gl. main e w = (Returned, w', out) \<and> json w' (list_file_of e) = Some gl" .
qed

theorem run_outcomes_witness:
  "stat (sample_world [(''Broken.pptx'', 10)] []) (source_dir_of unavailable_env) \<noteq> None
   \<and> os_raises unavailable_env (Makedirs (target_dir_of unavailable_env)) = None
   \<and> os_raises unavailable_env (Listdir (source_dir_of unavailable_env)) = None
   \<and> candidates unavailable_env (sample_world [(''Broken.pptx'', 10)] []) = [''Broken.pptx'']
   \<and> stat (sample_world [(''Broken.pptx'', 10)] []) (source_file_of unavailable_env ''Broken.pptx'') \<noteq> None
   \<and> os_raises unavailable_env (Write_json (list_file_of unavailable_env)) = None
   \<and> (\<exists>w' out gl. main unavailable_env (sample_world [(''Broken.pptx'', 10)] []) = (Returned, w', out)
         \<and> json w' (list_file_of unavailable_env) = Some gl)
   \<and> json (fst (snd (main unavailable_env (sample_world [(''Broken.pptx'', 10)] []))))
        (list_file_of unavailable_env) = Some []"
proof -
  let ?w = "sample_world [(''Broken.pptx'', 10)] []"
  have 1: "stat ?w (source_dir_of unavailable_env) \<noteq> None"
    by (simp add: sample_defs path_defs)
  have o: "os_raises unavailable_env (Makedirs (target_dir_of unavailable_env)) = None"
    "os_raises unavailable_env (Listdir (source_dir_of unavailable_env)) = None"
    "os_raises unavailable_env (Write_json (list_file_of unavailable_env)) = None"
    by (simp_all add: sample_defs)
  have 2: "candidates unavailable_env ?w = [''Broken.pptx'']"
    by (simp add: candidates_def sample_defs path_defs string_defs)
  have 3: "stat ?w (source_file_of unavailable_env ''Broken.pptx'') \<noteq> None"
    by (simp add: sample_defs path_defs)
  have 4: "json (fst (snd (main unavailable_env ?w))) (list_file_of unavailable_env) = Some []"
    by (simp add: run_defs convert_defs sample_defs path_defs string_defs)
  from run_outcomes [of ?w unavailable_env] 1 2 3 o
  have 5: "\<exists>w' out gl. main unavailable_env ?w = (Returned, w', out)
         \<and> json w' (list_file_of unavailable_env) = Some gl"
    by simp
  show ?thesis by (intro conjI 1 o 2 3 4 5)
qed

text \<open>
  Claim C4 as stated fails: with the source directory missing, and with a source
  directory that holds no PowerPoint file, the run exits with status 0 before the loop
  and no manifest file exists afterwards.
\<close>

theorem manifest_always_written_counterexample:
  "fst (main sample_env empty_world) = SystemExit 0
   \<and> json (fst (snd (main sample_env empty_world))) (list_file_of sample_env) = None
   \<and> fst (main sample_env (sample_world [(''notes.txt'', 10)] [])) = SystemExit 0
   \<and> json (fst (snd (main sample_env (sample_world [(''notes.txt'', 10)] [])))) (list_file_of sample_env) = None"
  by (simp add: run_defs sample_defs path_defs string_defs)

subsection \<open>A conversion that raises\<close>














text \<open>Where PowerPoint is not registered, the line that names the file is the progress
  line; the two lines of the \<^verbatim>\<open>except\<close> clause do not.\<close>

lemma unavailable_names_file:
  "convert_ppt_to_pdf unavailable_env (sample_world [(''Broken.pptx'', 10)] [])
      (path_join (source_dir_of unavailable_env) ''Broken.pptx'')
      (path_join (target_dir_of unavailable_env) ''Broken.pdf'') =
     (False, sample_world [(''Broken.pptx'', 10)] [],
      [Call_convert (path_join (source_dir_of unavailable_env) ''Broken.pptx'')
                    (path_join (target_dir_of unavailable_env) ''Broken.pdf''),
       Print ''Converting Broken.pptx...'',
       Com CreateObject (Some ''Invalid class string''),
       Print ''  -> Error: Microsoft PowerPoint is not installed or not registered.'',
       Print ''     (This script requires PowerPoint to be installed on the machine running it)''])
   \<and> names_file ''Broken.pptx'' (Print ''Converting Broken.pptx...'')"
  by (simp add: convert_defs sample_defs path_defs)

lemma endswith_last:
  assumes "endswith s suf" and "suf \<noteq> []"
  shows "s \<noteq> [] \<and> last s = last suf"
proof -
  from assms have l: "length suf \<le> length s" and d: "drop (length s - length suf) s = suf"
    by (simp_all add: endswith_def)
  from l assms(2) have ne: "s \<noteq> []" by auto
  have "s = take (length s - length suf) s @ suf"
    using append_take_drop_id [of "length s - length suf" s] d by simp
  then have "last s = last (take (length s - length suf) s @ suf)" by simp
  also have "\<dots> = last suf" using assms(2) by simp
  finally show ?thesis using ne by simp
qed

lemma is_ppt_last:
  assumes "is_ppt f"
  shows "f \<noteq> [] \<and> last f \<noteq> CHR ''f'' \<and> last f \<noteq> CHR ''n''"
proof -
  from assms have "endswith (lower f) ''.pptx'' \<or> endswith (lower f) ''.ppt''"
    by (simp add: is_ppt_def)
  then have "lower f \<noteq> [] \<and> (last (lower f) = CHR ''x'' \<or> last (lower f) = CHR ''t'')"
    using endswith_last [of "lower f" "''.pptx''"] endswith_last [of "lower f" "''.ppt''"]
    by auto
  then have ne: "f \<noteq> []" and l: "lower_char (last f) = CHR ''x'' \<or> lower_char (last f) = CHR ''t''"
    by (auto simp: lower_def last_map)
  from l have "last f \<noteq> CHR ''f'' \<and> last f \<noteq> CHR ''n''"
    by (auto simp: lower_char_def)
  with ne show ?thesis by simp
qed

lemma last_path_join: "b \<noteq> [] \<Longrightarrow> last (path_join a b) = last b"
  by (simp add: path_join_def)

lemma source_not_target:
  assumes "is_ppt g"
  shows "path_join sd g \<noteq> path_join td (pdf_filename f)"
proof
  assume eq: "path_join sd g = path_join td (pdf_filename f)"
  have "last (path_join td (pdf_filename f)) = CHR ''f''"
    by (simp add: last_path_join pdf_filename_def)
  moreover have "last (path_join sd g) = last g"
    using is_ppt_last [OF assms] by (simp add: last_path_join)
  ultimately show False using eq is_ppt_last [OF assms] by simp
qed

lemma list_file_not_source:
  assumes "is_ppt g"
  shows "path_join td ''list.json'' \<noteq> path_join sd g"
proof
  assume eq: "path_join td ''list.json'' = path_join sd g"
  have "last (path_join td ''list.json'') = CHR ''n''"
    by (simp add: last_path_join)
  moreover have "last (path_join sd g) = last g"
    using is_ppt_last [OF assms] by (simp add: last_path_join)
  ultimately show False using eq is_ppt_last [OF assms] by simp
qed

lemma list_file_not_target: "path_join td ''list.json'' \<noteq> path_join td2 (pdf_filename f)"
proof
  assume eq: "path_join td ''list.json'' = path_join td2 (pdf_filename f)"
  have "last (path_join td ''list.json'') = CHR ''n''"
    by (simp add: last_path_join)
  moreover have "last (path_join td2 (pdf_filename f)) = CHR ''f''"
    by (simp add: last_path_join pdf_filename_def)
  ultimately show False using eq by simp
qed

lemma convert_succeeds:
  assumes "converts_later e w src tgt"
  shows "\<exists>s t out2. convert_ppt_to_pdf e w src tgt = (True, w\<lparr>stat := (stat w)(tgt \<mapsto> t)\<rparr>, out2)
           \<and> stat w src = Some s \<and> s < t"
  using assms
  by (auto simp: converts_later_def convert_ppt_to_pdf_def try_body_def Let_def
      split: option.splits sum.splits)

lemma up_to_date_skip:
  assumes "up_to_date w (path_join sd f) (path_join td (pdf_filename f))"
  shows "loop_body e sd td f (w, out, gl) =
     Inr (w, out @ [Print (''Skipping '' @ f @ '' (PDF is up to date)'')], gl @ [guide_entry_of f])"
  using assms
  by (auto simp: up_to_date_def loop_body_skip should_convert_present split: option.splits)

lemma stale_convert:
  assumes "\<not> up_to_date w (path_join sd f) (path_join td (pdf_filename f))"
    and "stat w (path_join sd f) = Some s"
  shows "should_convert w f (path_join sd f) (path_join td (pdf_filename f)) = Inr (True, [])"
  using assms by (auto simp: up_to_date_def should_convert_def split: option.splits)

lemma first_run_loop:
  assumes "\<forall>f\<in>set fs. is_ppt f \<and>
             converts_later e w (path_join sd f) (path_join td (pdf_filename f))"
    and "\<forall>g\<in>set prev. is_ppt g \<and>
             up_to_date w (path_join sd g) (path_join td (pdf_filename g))"
  shows "\<exists>w' new. process_files e sd td fs (w, out, gl) =
             Inr (w', out @ new, gl @ map guide_entry_of fs)
          \<and> (\<forall>g\<in>set prev \<union> set fs. up_to_date w' (path_join sd g) (path_join td (pdf_filename g)))
          \<and> json w' = json w \<and> listdir w' = listdir w
          \<and> (\<forall>q. stat w q \<noteq> None \<longrightarrow> stat w' q \<noteq> None)"
  using assms
proof (induction fs arbitrary: w out gl prev)
  case Nil
  then show ?case by simp
next
  case (Cons f fs)
  let ?src = "path_join sd f" and ?tgt = "path_join td (pdf_filename f)"
  from Cons.prems(1) have pf: "is_ppt f" and cl: "converts_later e w ?src ?tgt" by simp_all
  show ?case
  proof (cases "up_to_date w ?src ?tgt")
    case True
    have lb: "loop_body e sd td f (w, out, gl) =
        Inr (w, out @ [Print (''Skipping '' @ f @ '' (PDF is up to date)'')], gl @ [guide_entry_of f])"
      using True by (rule up_to_date_skip)
    have 1: "\<forall>h\<in>set fs. is_ppt h \<and> converts_later e w (path_join sd h) (path_join td (pdf_filename h))"
      using Cons.prems(1) by simp
    have 2: "\<forall>g\<in>set (f # prev). is_ppt g \<and> up_to_date w (path_join sd g) (path_join td (pdf_filename g))"
      using Cons.prems(2) True pf by simp
    from Cons.IH [OF 1 2, of "out @ [Print (''Skipping '' @ f @ '' (PDF is up to date)'')]" "gl @ [guide_entry_of f]"]
    obtain w' new where
      p: "process_files e sd td fs (w, out @ [Print (''Skipping '' @ f @ '' (PDF is up to date)'')], gl @ [guide_entry_of f]) =
            Inr (w', (out @ [Print (''Skipping '' @ f @ '' (PDF is up to date)'')]) @ new,
                 (gl @ [guide_entry_of f]) @ map guide_entry_of fs)"
      and u: "\<forall>g\<in>set (f # prev) \<union> set fs. up_to_date w' (path_join sd g) (path_join td (pdf_filename g))"
      and fr: "json w' = json w" "listdir w' = listdir w" "\<forall>q. stat w q \<noteq> None \<longrightarrow> stat w' q \<noteq> None"
      by blast
    have "process_files e sd td (f # fs) (w, out, gl) =
        Inr (w', out @ ([Print (''Skipping '' @ f @ '' (PDF is up to date)'')] @ new),
             gl @ map guide_entry_of (f # fs))"
      using lb p by simp
    moreover have "\<forall>g\<in>set prev \<union> set (f # fs). up_to_date w' (path_join sd g) (path_join td (pdf_filename g))"
      using u by auto
    ultimately show ?thesis using fr by blast
  next
    case False
    from convert_succeeds [OF cl] obtain s t out2 where
      c: "convert_ppt_to_pdf e w ?src ?tgt = (True, w\<lparr>stat := (stat w)(?tgt \<mapsto> t)\<rparr>, out2)"
      and s: "stat w ?src = Some s" and st: "s < t" by blast
    let ?w1 = "w\<lparr>stat := (stat w)(?tgt \<mapsto> t)\<rparr>"
    have sc: "should_convert w f ?src ?tgt = Inr (True, [])"
      using False s by (rule stale_convert)
    have lb: "loop_body e sd td f (w, out, gl) = Inr (?w1, out @ out2, gl @ [guide_entry_of f])"
      using sc c by (simp add: loop_body_convert)
    have src_same: "\<And>g. is_ppt g \<Longrightarrow> stat ?w1 (path_join sd g) = stat w (path_join sd g)"
      using source_not_target by simp
    have old: "\<And>t0. stat w ?tgt = Some t0 \<Longrightarrow> t0 \<le> s"
      using False s by (auto simp: up_to_date_def)
    have 1: "\<forall>h\<in>set fs. is_ppt h \<and> converts_later e ?w1 (path_join sd h) (path_join td (pdf_filename h))"
    proof
      fix h assume h: "h \<in> set fs"
      with Cons.prems(1) have ph: "is_ppt h"
        and ch: "converts_later e w (path_join sd h) (path_join td (pdf_filename h))" by simp_all
      from ch src_same [OF ph]
      have "converts_later e ?w1 (path_join sd h) (path_join td (pdf_filename h))"
        by (simp add: converts_later_def)
      with ph show "is_ppt h \<and> converts_later e ?w1 (path_join sd h) (path_join td (pdf_filename h))"
        by simp
    qed
    have uf: "up_to_date ?w1 ?src ?tgt"
      using src_same [OF pf] s st by (simp add: up_to_date_def)
    have 2: "\<forall>g\<in>set (f # prev). is_ppt g \<and> up_to_date ?w1 (path_join sd g) (path_join td (pdf_filename g))"
    proof
      fix g assume g: "g \<in> set (f # prev)"
      show "is_ppt g \<and> up_to_date ?w1 (path_join sd g) (path_join td (pdf_filename g))"
      proof (cases "g = f")
        case True
        with pf uf show ?thesis by simp
      next
        case False
        with g Cons.prems(2) have pg: "is_ppt g"
          and ug: "up_to_date w (path_join sd g) (path_join td (pdf_filename g))" by simp_all
        from ug obtain sg tg where
          sg: "stat w (path_join sd g) = Some sg"
          and tg: "stat w (path_join td (pdf_filename g)) = Some tg" and lt: "sg < tg"
          by (auto simp: up_to_date_def split: option.splits)
        have "up_to_date ?w1 (path_join sd g) (path_join td (pdf_filename g))"
        proof (cases "path_join td (pdf_filename g) = ?tgt")
          case True
          with tg old have "tg \<le> s" by simp
          with lt st have "sg < t" by simp
          with True sg src_same [OF pg] show ?thesis by (simp add: up_to_date_def)
        next
          case False
          with sg tg lt src_same [OF pg] show ?thesis by (simp add: up_to_date_def)
        qed
        with pg show ?thesis by simp
      qed
    qed
    from Cons.IH [OF 1 2, of "out @ out2" "gl @ [guide_entry_of f]"]
    obtain w' new where
      p: "process_files e sd td fs (?w1, out @ out2, gl @ [guide_entry_of f]) =
            Inr (w', (out @ out2) @ new, (gl @ [guide_entry_of f]) @ map guide_entry_of fs)"
      and u: "\<forall>g\<in>set (f # prev) \<union> set fs. up_to_date w' (path_join sd g) (path_join td (pdf_filename g))"
      and fr: "json w' = json ?w1" "listdir w' = listdir ?w1" "\<forall>q. stat ?w1 q \<noteq> None \<longrightarrow> stat w' q \<noteq> None"
      by blast
    have a: "process_files e sd td (f # fs) (w, out, gl) =
        Inr (w', out @ (out2 @ new), gl @ map guide_entry_of (f # fs))"
      using lb p by simp
    have b: "\<forall>g\<in>set prev \<union> set (f # fs). up_to_date w' (path_join sd g) (path_join td (pdf_filename g))"
      using u by auto
    have c1: "json w' = json w" "listdir w' = listdir w" using fr by simp_all
    have c2: "\<forall>q. stat w q \<noteq> None \<longrightarrow> stat w' q \<noteq> None"
      using fr(3) by (auto simp del: not_None_eq)
    from a b c1 c2 show ?thesis by blast
  qed
qed

lemma second_run_loop:
  assumes "\<forall>f\<in>set fs. up_to_date w (path_join sd f) (path_join td (pdf_filename f))"
  shows "\<exists>new. process_files e sd td fs (w, out, gl) =
             Inr (w, out @ new, gl @ map guide_entry_of fs) \<and> conversions new = []"
  using assms
proof (induction fs arbitrary: out gl)
  case Nil
  then show ?case by simp
next
  case (Cons f fs)
  let ?skip = "Print (''Skipping '' @ f @ '' (PDF is up to date)'')"
  have lb: "loop_body e sd td f (w, out, gl) = Inr (w, out @ [?skip], gl @ [guide_entry_of f])"
    using Cons.prems by (simp add: up_to_date_skip)
  from Cons.prems have "\<forall>h\<in>set fs. up_to_date w (path_join sd h) (path_join td (pdf_filename h))"
    by simp
  from Cons.IH [OF this, of "out @ [?skip]" "gl @ [guide_entry_of f]"]
  obtain new where p: "process_files e sd td fs (w, out @ [?skip], gl @ [guide_entry_of f]) =
      Inr (w, (out @ [?skip]) @ new, (gl @ [guide_entry_of f]) @ map guide_entry_of fs)"
    and c: "conversions new = []" by blast
  have "process_files e sd td (f # fs) (w, out, gl) =
      Inr (w, out @ (?skip # new), gl @ map guide_entry_of (f # fs))"
    using lb p by simp
  moreover have "conversions (?skip # new) = []" using c by simp
  ultimately show ?case by blast
qed

lemma same_cwd:
  assumes "getcwd e2 = getcwd e1"
  shows "source_dir_of e2 = source_dir_of e1" and "target_dir_of e2 = target_dir_of e1"
    and "list_file_of e2 = list_file_of e1" and "candidates e2 w = candidates e1 w"
  using assms by (simp_all add: source_dir_of_def target_dir_of_def list_file_of_def candidates_def)

lemma conversions_write_manifest:
  "write_manifest e (w, out, gl) = (r, w', out') \<Longrightarrow> conversions out' = conversions out"
  by (auto simp: write_manifest_def Let_def conversions_append split: option.splits)

lemma up_to_date_cong:
  "stat w1 s = stat w2 s \<Longrightarrow> stat w1 t = stat w2 t \<Longrightarrow> up_to_date w1 s t = up_to_date w2 s t"
  by (simp add: up_to_date_def split: option.splits)


lemma os_ok_parts:
  assumes "os_ok e"
  shows "os_raises e (Makedirs (target_dir_of e)) = None"
    and "os_raises e (Listdir (source_dir_of e)) = None"
    and "os_raises e (Write_json (list_file_of e)) = None"
  using assms by (simp_all add: os_ok_def)

lemma second_run_early:
  assumes cwd: "getcwd e2 = getcwd e1"
    and ok1: "os_ok e1" and ok2: "os_ok e2"
    and early: "stat w0 (source_dir_of e1) = None \<or> candidates e1 w0 = []"
  shows "\<exists>r1 w1 out1 r2 w2 out2.
       main e1 w0 = (r1, w1, out1) \<and> main e2 w1 = (r2, w2, out2)
     \<and> conversions out2 = []
     \<and> json w2 (list_file_of e1) = json w1 (list_file_of e1)"
proof -
  obtain r1 w1 out1 where m1: "main e1 w0 = (r1, w1, out1)" by (cases "main e1 w0") auto
  obtain r2 w2 out2 where m2: "main e2 w1 = (r2, w2, out2)" by (cases "main e2 w1") auto
  have c2: "candidates e1 w1 = []"
  proof (cases "stat w0 (source_dir_of e1) = None")
    case True
    with m1 have "w1 = mkdir e1 w0 (source_dir_of e1)" by (simp add: main_def Let_def)
    then show ?thesis by (simp add: candidates_def mkdir_def)
  next
    case False
    with early have c: "candidates e1 w0 = []" by simp
    let ?w = "create_missing e1 w0 [path_join (getcwd e1) ''public'', target_dir_of e1]"
    have "main e1 w0 = (SystemExit 0, ?w,
            [Print (''No PowerPoint files found in '' @ source_dir_of e1),
             Print ''Please place your .pptx files there and run this script again.''])"
      unfolding main_unfold [OF False os_ok_parts(1,2) [OF ok1]] using c by simp
    with m1 have "w1 = ?w" by simp
    then show ?thesis using candidates_create_missing [OF False] c by simp
  qed
  then have "candidates e2 w1 = []" using same_cwd(4) [OF cwd] by simp
  then have "stat w1 (source_dir_of e2) = None
    \<or> (os_raises e2 (Makedirs (target_dir_of e2)) = None
        \<and> os_raises e2 (Listdir (source_dir_of e2)) = None \<and> candidates e2 w1 = [])"
    using os_ok_parts(1,2) [OF ok2] by simp
  from main_early_exit [OF this] m2
  have "conversions out2 = []" and "json w2 = json w1" by simp_all
  then have "json w2 (list_file_of e1) = json w1 (list_file_of e1)" by simp
  with m1 m2 \<open>conversions out2 = []\<close> show ?thesis by (intro exI conjI)
qed

lemma write_manifest_ok:
  assumes "os_raises e (Write_json (list_file_of e)) = None"
  shows "\<exists>out'. write_manifest e (w, out, gl) =
      (Returned, w\<lparr>stat := (stat w)(list_file_of e \<mapsto> clock e),
                     json := (json w)(list_file_of e \<mapsto> gl)\<rparr>, out')
      \<and> conversions out' = conversions out"
  using assms by (simp add: write_manifest_def Let_def conversions_append)

lemma second_run_main:
  assumes cwd: "getcwd e2 = getcwd e1"
    and ok1: "os_ok e1" and ok2: "os_ok e2"
    and sd: "stat w0 (source_dir_of e1) \<noteq> None"
    and cs: "candidates e1 w0 \<noteq> []"
    and ok: "\<forall>f\<in>set (candidates e1 w0).
               converts_later e1 w0 (source_file_of e1 f) (target_file_of e1 f)"
  shows "\<exists>w1 out1 w2 out2.
       main e1 w0 = (Returned, w1, out1) \<and> main e2 w1 = (Returned, w2, out2)
     \<and> conversions out2 = []
     \<and> json w1 (list_file_of e1) = Some (map guide_entry_of (candidates e1 w0))
     \<and> json w2 (list_file_of e1) = Some (map guide_entry_of (candidates e1 w0))"
proof -
  let ?sd = "source_dir_of e1" and ?td = "target_dir_of e1" and ?lf = "list_file_of e1"
  let ?fs = "candidates e1 w0"
  let ?gl = "map guide_entry_of ?fs"
  let ?src = "\<lambda>f. path_join ?sd f" and ?tgt = "\<lambda>f. path_join ?td (pdf_filename f)"
  let ?found = "[Print (''Found '' @ str_nat (length ?fs) @ '' PowerPoint files.'')]"
  note same = same_cwd [OF cwd]
  note os1 = os_ok_parts [OF ok1] and os2 = os_ok_parts [OF ok2]
  have lf: "?lf = path_join ?td ''list.json''" by (simp add: list_file_of_def)
  have ppt: "\<And>f. f \<in> set ?fs \<Longrightarrow> is_ppt f" by (simp add: candidates_def)
  \<comment> \<open>the first run\<close>
  let ?w0' = "create_missing e1 w0 [path_join (getcwd e1) ''public'', ?td]"
  have ok': "\<forall>f\<in>set ?fs. is_ppt f \<and> converts_later e1 ?w0' (?src f) (?tgt f)"
  proof
    fix f assume f: "f \<in> set ?fs"
    with ok have c: "converts_later e1 w0 (?src f) (?tgt f)"
      by (simp add: source_file_of_def target_file_of_def)
    then have "stat w0 (?src f) \<noteq> None"
      by (auto simp: converts_later_def split: option.splits)
    from create_missing_stat [OF this] c have "converts_later e1 ?w0' (?src f) (?tgt f)"
      by (simp add: converts_later_def)
    with ppt [OF f] show "is_ppt f \<and> converts_later e1 ?w0' (?src f) (?tgt f)" by simp
  qed
  have none: "\<forall>g\<in>set []. is_ppt g \<and> up_to_date ?w0' (?src g) (?tgt g)" by simp
  have "\<exists>w' new. process_files e1 ?sd ?td ?fs (?w0', ?found, []) = Inr (w', ?found @ new, ?gl)
          \<and> (\<forall>g\<in>set ?fs. up_to_date w' (?src g) (?tgt g))
          \<and> json w' = json ?w0' \<and> listdir w' = listdir ?w0'
          \<and> (\<forall>q. stat ?w0' q \<noteq> None \<longrightarrow> stat w' q \<noteq> None)"
    using first_run_loop [OF ok' none, of ?found "[]"]
    by (simp only: append_Nil list.set Un_empty_left)
  then obtain w1' new1 where
    p1: "process_files e1 ?sd ?td ?fs (?w0', ?found, []) = Inr (w1', ?found @ new1, ?gl)"
    and u1: "\<forall>g\<in>set ?fs. up_to_date w1' (?src g) (?tgt g)"
    and l1: "listdir w1' = listdir ?w0'"
    and s1: "\<forall>q. stat ?w0' q \<noteq> None \<longrightarrow> stat w1' q \<noteq> None"
    by blast
  let ?w1 = "w1'\<lparr>stat := (stat w1')(?lf \<mapsto> clock e1), json := (json w1')(?lf \<mapsto> ?gl)\<rparr>"
  from write_manifest_ok [OF os1(3), of w1' "?found @ new1" ?gl]
  obtain out1 where wm1: "write_manifest e1 (w1', ?found @ new1, ?gl) = (Returned, ?w1, out1)"
    by blast
  have "main e1 w0 = finish e1 ?sd ?td ?fs (?w0', ?found, [])"
    unfolding main_unfold [OF sd os1(1,2)] using cs by (simp only: if_False)
  also have "\<dots> = write_manifest e1 (w1', ?found @ new1, ?gl)"
    by (simp only: finish_def p1 sum.case)
  also have "\<dots> = (Returned, ?w1, out1)" by (rule wm1)
  finally have m1: "main e1 w0 = (Returned, ?w1, out1)" .
  \<comment> \<open>the world between the runs\<close>
  have st1: "stat ?w1 = (stat w1')(?lf \<mapsto> clock e1)" and ld1: "listdir ?w1 = listdir w1'" by simp_all
  have u: "\<forall>g\<in>set ?fs. up_to_date ?w1 (?src g) (?tgt g)"
  proof
    fix g assume g: "g \<in> set ?fs"
    have "?lf \<noteq> ?src g" unfolding lf using list_file_not_source [OF ppt [OF g]] .
    moreover have "?lf \<noteq> ?tgt g" unfolding lf using list_file_not_target .
    ultimately have "stat ?w1 (?src g) = stat w1' (?src g)" "stat ?w1 (?tgt g) = stat w1' (?tgt g)"
      by simp_all
    then have "up_to_date ?w1 (?src g) (?tgt g) = up_to_date w1' (?src g) (?tgt g)"
      by (rule up_to_date_cong)
    with u1 g show "up_to_date ?w1 (?src g) (?tgt g)" by blast
  qed
  have "stat ?w0' ?sd \<noteq> None" using create_missing_stat [OF sd] sd by (simp del: not_None_eq)
  with s1 have "stat w1' ?sd \<noteq> None" by blast
  then have sd1: "stat ?w1 ?sd \<noteq> None" by (simp del: not_None_eq)
  have "listdir ?w1 ?sd = listdir w0 ?sd"
    using l1 create_missing_listdir [OF sd] by simp
  then have c1: "candidates e1 ?w1 = ?fs" by (simp add: candidates_def)
  \<comment> \<open>the second run\<close>
  have sd2: "stat ?w1 (source_dir_of e2) \<noteq> None" using sd1 unfolding same(1) .
  have c2: "candidates e2 ?w1 = ?fs" using c1 unfolding same(4) .
  let ?w1'' = "create_missing e2 ?w1 [path_join (getcwd e2) ''public'', target_dir_of e2]"
  have u2: "\<forall>g\<in>set ?fs. up_to_date ?w1'' (?src g) (?tgt g)"
  proof
    fix g assume g: "g \<in> set ?fs"
    with u have ug: "up_to_date ?w1 (?src g) (?tgt g)" by blast
    then have n1: "stat ?w1 (?src g) \<noteq> None" and n2: "stat ?w1 (?tgt g) \<noteq> None"
      by (auto simp: up_to_date_def split: option.splits)
    have "stat ?w1'' (?src g) = stat ?w1 (?src g)" by (rule create_missing_stat [OF n1])
    moreover have "stat ?w1'' (?tgt g) = stat ?w1 (?tgt g)" by (rule create_missing_stat [OF n2])
    ultimately
    have "up_to_date ?w1'' (?src g) (?tgt g) = up_to_date ?w1 (?src g) (?tgt g)"
      by (rule up_to_date_cong)
    with ug show "up_to_date ?w1'' (?src g) (?tgt g)" by blast
  qed
  have "\<exists>new. process_files e2 ?sd ?td ?fs (?w1'', ?found, []) = Inr (?w1'', ?found @ new, ?gl)
          \<and> conversions new = []"
    using second_run_loop [OF u2, of e2 ?found "[]"] by (simp only: append_Nil)
  then obtain new2 where
    p2: "process_files e2 ?sd ?td ?fs (?w1'', ?found, []) = Inr (?w1'', ?found @ new2, ?gl)"
    and cv2: "conversions new2 = []" by blast
  let ?w2 = "?w1''\<lparr>stat := (stat ?w1'')(list_file_of e2 \<mapsto> clock e2),
                    json := (json ?w1'')(list_file_of e2 \<mapsto> ?gl)\<rparr>"
  from write_manifest_ok [OF os2(3), of ?w1'' "?found @ new2" ?gl]
  obtain out2 where wm2: "write_manifest e2 (?w1'', ?found @ new2, ?gl) = (Returned, ?w2, out2)"
    and cvo: "conversions out2 = conversions (?found @ new2)"
    by blast
  have "main e2 ?w1 = finish e2 (source_dir_of e2) (target_dir_of e2) ?fs (?w1'', ?found, [])"
    unfolding main_unfold [OF sd2 os2(1,2)] c2 using cs by (simp only: if_False)
  also have "\<dots> = finish e2 ?sd ?td ?fs (?w1'', ?found, [])"
    by (simp only: same(1) same(2))
  also have "\<dots> = write_manifest e2 (?w1'', ?found @ new2, ?gl)"
    by (simp only: finish_def p2 sum.case)
  also have "\<dots> = (Returned, ?w2, out2)" by (rule wm2)
  finally have m2: "main e2 ?w1 = (Returned, ?w2, out2)" .
  have cv: "conversions out2 = []" unfolding cvo using cv2 by (simp add: conversions_append)
  have g1: "json ?w1 ?lf = Some ?gl" by simp
  have g2: "json ?w2 ?lf = Some ?gl" unfolding same(3) by simp
  show ?thesis
    by (rule exI [of _ ?w1], rule exI [of _ out1], rule exI [of _ ?w2], rule exI [of _ out2])
       (intro conjI m1 m2 cv g1 g2)
qed

text \<open>
  Claim C5, as amended. Let no file-system call outside the conversion raise in either
  run, and let PowerPoint convert every candidate of the first run, each source file
  existing and each PDF written getting a modification time strictly greater than its
  source's (the working directory being absolute, so that \<^verbatim>\<open>os.path.abspath\<close> leaves the
  paths of the script as they are). Then a second run, started in the world the first run left (on the same
  working directory, whatever the COM server would answer now), attempts no conversion,
  and the manifest file holds after it what it held after the first run: one entry per
  candidate, in listing order, when the source directory existed and held candidates,
  and nothing otherwise (both runs then end early).
\<close>

theorem second_run_skips_all:
  assumes cwd: "getcwd e2 = getcwd e1"
    and ok1: "os_ok e1" and ok2: "os_ok e2"
    and ok: "\<forall>f\<in>set (candidates e1 w0).
               converts_later e1 w0 (source_file_of e1 f) (target_file_of e1 f)"
  shows "\<exists>r1 w1 out1 r2 w2 out2.
       main e1 w0 = (r1, w1, out1) \<and> main e2 w1 = (r2, w2, out2)
     \<and> conversions out2 = []
     \<and> json w2 (list_file_of e1) = json w1 (list_file_of e1)
     \<and> (stat w0 (source_dir_of e1) \<noteq> None \<and> candidates e1 w0 \<noteq> [] \<longrightarrow>
          r1 = Returned \<and> r2 = Returned
          \<and> json w1 (list_file_of e1) = Some (map guide_entry_of (candidates e1 w0)))"
proof (cases "stat w0 (source_dir_of e1) = None \<or> candidates e1 w0 = []")
  case True
  from second_run_early [OF cwd ok1 ok2 True] obtain r1 w1 out1 r2 w2 out2 where
    a: "main e1 w0 = (r1, w1, out1)" "main e2 w1 = (r2, w2, out2)" "conversions out2 = []"
      "json w2 (list_file_of e1) = json w1 (list_file_of e1)"
    by blast
  have b: "stat w0 (source_dir_of e1) \<noteq> None \<and> candidates e1 w0 \<noteq> [] \<longrightarrow>
          r1 = Returned \<and> r2 = Returned
          \<and> json w1 (list_file_of e1) = Some (map guide_entry_of (candidates e1 w0))"
    using True by (auto simp del: not_None_eq)
  show ?thesis
    by (rule exI [of _ r1], rule exI [of _ w1], rule exI [of _ out1],
        rule exI [of _ r2], rule exI [of _ w2], rule exI [of _ out2])
       (intro conjI a b)
next
  case False
  then have sd: "stat w0 (source_dir_of e1) \<noteq> None" and cs: "candidates e1 w0 \<noteq> []" by simp_all
  from second_run_main [OF cwd ok1 ok2 sd cs ok] obtain w1 out1 w2 out2 where
    a: "main e1 w0 = (Returned, w1, out1)" "main e2 w1 = (Returned, w2, out2)"
    "conversions out2 = []"
    and j1: "json w1 (list_file_of e1) = Some (map guide_entry_of (candidates e1 w0))"
    and j2: "json w2 (list_file_of e1) = Some (map guide_entry_of (candidates e1 w0))"
    by blast
  have j: "json w2 (list_file_of e1) = json w1 (list_file_of e1)" using j1 j2 by simp
  have b: "stat w0 (source_dir_of e1) \<noteq> None \<and> candidates e1 w0 \<noteq> [] \<longrightarrow>
          Returned = Returned \<and> Returned = Returned
          \<and> json w1 (list_file_of e1) = Some (map guide_entry_of (candidates e1 w0))"
    using j1 by simp
  show ?thesis
    by (rule exI [of _ Returned], rule exI [of _ w1], rule exI [of _ out1],
        rule exI [of _ Returned], rule exI [of _ w2], rule exI [of _ out2])
       (intro conjI a j b)
qed

theorem second_run_skips_all_witness:
  "os_ok sample_env
   \<and> candidates sample_env (sample_world [(''Intro.pptx'', 10), (''Advanced.ppt'', 20)] []) =
      [''Intro.pptx'', ''Advanced.ppt'']
   \<and> converts_later sample_env (sample_world [(''Intro.pptx'', 10), (''Advanced.ppt'', 20)] [])
        (source_file_of sample_env ''Intro.pptx'') (target_file_of sample_env ''Intro.pptx'')
   \<and> converts_later sample_env (sample_world [(''Intro.pptx'', 10), (''Advanced.ppt'', 20)] [])
        (source_file_of sample_env ''Advanced.ppt'') (target_file_of sample_env ''Advanced.ppt'')
   \<and> (\<exists>w1 out1 w2 out2.
        main sample_env (sample_world [(''Intro.pptx'', 10), (''Advanced.ppt'', 20)] []) = (Returned, w1, out1)
      \<and> main sample_env w1 = (Returned, w2, out2)
      \<and> conversions out2 = []
      \<and> json w2 (list_file_of sample_env) = json w1 (list_file_of sample_env)
      \<and> json w1 (list_file_of sample_env) =
          Some [[(''title'', ''Intro''), (''filename'', ''Intro.pdf'')],
                [(''title'', ''Advanced''), (''filename'', ''Advanced.pdf'')]])"
proof -
  let ?w = "sample_world [(''Intro.pptx'', 10), (''Advanced.ppt'', 20)] []"
  have o: "os_ok sample_env" by (simp add: os_ok_def sample_defs)
  have c: "candidates sample_env ?w = [''Intro.pptx'', ''Advanced.ppt'']"
    by (simp add: candidates_def sample_defs path_defs string_defs)
  have k1: "converts_later sample_env ?w
        (source_file_of sample_env ''Intro.pptx'') (target_file_of sample_env ''Intro.pptx'')"
    by (simp add: converts_later_def sample_defs path_defs)
  have k2: "converts_later sample_env ?w
        (source_file_of sample_env ''Advanced.ppt'') (target_file_of sample_env ''Advanced.ppt'')"
    by (simp add: converts_later_def sample_defs path_defs)
  have ok: "\<forall>f\<in>set (candidates sample_env ?w).
      converts_later sample_env ?w (source_file_of sample_env f) (target_file_of sample_env f)"
    unfolding c using k1 k2 by simp
  have sd: "stat ?w (source_dir_of sample_env) \<noteq> None"
    by (simp add: sample_defs path_defs)
  have g: "map guide_entry_of [''Intro.pptx'', ''Advanced.ppt''] =
      [[(''title'', ''Intro''), (''filename'', ''Intro.pdf'')],
       [(''title'', ''Advanced''), (''filename'', ''Advanced.pdf'')]]"
    by (simp add: path_defs)
  from second_run_skips_all [OF refl o o ok]
  obtain r1 w1 out1 r2 w2 out2 where
    m1: "main sample_env ?w = (r1, w1, out1)" and m2: "main sample_env w1 = (r2, w2, out2)"
    and cv: "conversions out2 = []"
    and j: "json w2 (list_file_of sample_env) = json w1 (list_file_of sample_env)"
    and imp: "stat ?w (source_dir_of sample_env) \<noteq> None \<and> candidates sample_env ?w \<noteq> [] \<longrightarrow>
          r1 = Returned \<and> r2 = Returned
          \<and> json w1 (list_file_of sample_env) = Some (map guide_entry_of (candidates sample_env ?w))"
    by blast
  from imp sd c have r: "r1 = Returned" "r2 = Returned"
    and j1: "json w1 (list_file_of sample_env) = Some (map guide_entry_of [''Intro.pptx'', ''Advanced.ppt''])"
    by simp_all
  have m1': "main sample_env ?w = (Returned, w1, out1)" using m1 r(1) by simp
  have m2': "main sample_env w1 = (Returned, w2, out2)" using m2 r(2) by simp
  have j1': "json w1 (list_file_of sample_env) =
          Some [[(''title'', ''Intro''), (''filename'', ''Intro.pdf'')],
                [(''title'', ''Advanced''), (''filename'', ''Advanced.pdf'')]]"
    using j1 unfolding g .
  have "\<exists>w1 out1 w2 out2.
        main sample_env ?w = (Returned, w1, out1)
      \<and> main sample_env w1 = (Returned, w2, out2)
      \<and> conversions out2 = []
      \<and> json w2 (list_file_of sample_env) = json w1 (list_file_of sample_env)
      \<and> json w1 (list_file_of sample_env) =
          Some [[(''title'', ''Intro''), (''filename'', ''Intro.pdf'')],
                [(''title'', ''Advanced''), (''filename'', ''Advanced.pdf'')]]"
    by (rule exI [of _ w1], rule exI [of _ out1], rule exI [of _ w2], rule exI [of _ out2])
       (intro conjI m1' m2' cv j j1')
  with o c k1 k2 show ?thesis by (intro conjI)
qed

text \<open>
  Claim C5 as stated fails. On a machine without PowerPoint the conversion of
  \<^verbatim>\<open>Broken.pptx\<close> fails in the first run, no PDF exists afterwards, and the second run
  attempts the conversion again. And where the PDF is written with a modification time
  that is not later than the source's (here the source is stamped 150, the PDF 100), the
  second run finds the target stale and converts again.
\<close>

theorem second_run_skips_counterexample:
  "conversions (snd (snd (main unavailable_env
       (fst (snd (main unavailable_env (sample_world [(''Broken.pptx'', 10)] []))))))) =
     [(path_join (source_dir_of unavailable_env) ''Broken.pptx'',
       path_join (target_dir_of unavailable_env) ''Broken.pdf'')]
   \<and> conversions (snd (snd (main sample_env
       (fst (snd (main sample_env (sample_world [(''Intro.pptx'', 150)] []))))))) =
     [(path_join (source_dir_of sample_env) ''Intro.pptx'',
       path_join (target_dir_of sample_env) ''Intro.pdf'')]"
proof -
  let ?w = "sample_world [(''Broken.pptx'', 10)] []"
  let ?w1 = "?w\<lparr>stat := (stat ?w)
        (path_join (getcwd sample_env) ''public'' \<mapsto> 200,
         target_dir_of sample_env \<mapsto> 200,
         list_file_of sample_env \<mapsto> 200),
     listdir := (listdir ?w)
        (path_join (getcwd sample_env) ''public'' := [], target_dir_of sample_env := []),
     json := [list_file_of sample_env \<mapsto> []]\<rparr>"
  have first: "fst (snd (main unavailable_env ?w)) = ?w1"
    by (simp add: run_defs convert_defs sample_defs path_defs string_defs)
  have second: "conversions (snd (snd (main unavailable_env ?w1))) =
     [(path_join (source_dir_of unavailable_env) ''Broken.pptx'',
       path_join (target_dir_of unavailable_env) ''Broken.pdf'')]"
    by (simp add: run_defs convert_defs sample_defs path_defs string_defs)
  have 1: "conversions (snd (snd (main unavailable_env (fst (snd (main unavailable_env ?w)))))) =
     [(path_join (source_dir_of unavailable_env) ''Broken.pptx'',
       path_join (target_dir_of unavailable_env) ''Broken.pdf'')]"
    unfolding first by (rule second)
  have 2: "conversions (snd (snd (main sample_env
       (fst (snd (main sample_env (sample_world [(''Intro.pptx'', 150)] []))))))) =
     [(path_join (source_dir_of sample_env) ''Intro.pptx'',
       path_join (target_dir_of sample_env) ''Intro.pdf'')]"
    by (simp add: run_defs convert_defs sample_defs path_defs string_defs)
  from 1 2 show ?thesis by (intro conjI)
qed

end
